theory Spec2Isabelle
  imports Complex_Main "HOL-Library.Log_Nat"
begin

section \<open>Payment-session reconciliation pipeline of KCE\<close>

text \<open>
  A shallow embedding of the two request handlers that carry the booking logic:
  \<^item> \<^verbatim>\<open>src/app/api/webhooks/stripe/route.ts\<close> (the webhook receiver, the booking store
    and the notification dispatcher), and
  \<^item> \<^verbatim>\<open>src/app/api/checkout/route.ts\<close> (validation, catalog resolution, currency
    conversion and the session request).

  Conventions of the model.
  \<^item> A JavaScript string is a \<open>string\<close>; a character stands for a code unit below 256.
  \<^item> A JavaScript number is a \<open>jsnum\<close>: a finite value (the rational that the double
    stands for), or one of \<open>NaN\<close>, \<open>+Infinity\<close>, \<open>-Infinity\<close>. Division, multiplication
    and addition round their exact result to the nearest double (\<open>to_double\<close>).
  \<^item> The database is a pair of tables in the \<open>store\<close>; the mail provider's accepted
    messages are the \<open>outbox\<close>. Everything the handlers get from outside (the Stripe
    SDK, the result of each database call, the PDF renderer, the mail API, the clock) is
    a field of the \<open>world\<close> of one delivery, so two deliveries may see different worlds.
  \<^item> An awaited call that throws is a value: \<open>exn option\<close> or a sum.
\<close>

subsection \<open>JavaScript values\<close>

datatype jsnum = Fin rat | PInf | NInf | NaN

datatype jval = JNull | JBool bool | JNum jsnum | JStr string | JOpaque

text \<open>Truthiness of a number (\<open>x || y\<close>, \<open>if (x)\<close>): zero and NaN are falsy.\<close>

fun num_truthy :: "jsnum \<Rightarrow> bool" where
  "num_truthy (Fin q) = (q \<noteq> 0)"
| "num_truthy NaN = False"
| "num_truthy PInf = True"
| "num_truthy NInf = True"

text \<open>\<open>a || b\<close> on possibly missing strings: \<open>undefined\<close>, \<open>null\<close> and \<open>''\<close> are falsy.\<close>

fun str_truthy :: "string option \<Rightarrow> bool" where
  "str_truthy None = False"
| "str_truthy (Some s) = (s \<noteq> [])"

definition or_str :: "string option \<Rightarrow> string option \<Rightarrow> string option" where
  "or_str a b = (if str_truthy a then a else b)"

text \<open>\<open>a ?? b\<close>: only \<open>undefined\<close>/\<open>null\<close> fall through.\<close>

definition nullish :: "'a option \<Rightarrow> 'a option \<Rightarrow> 'a option" where
  "nullish a b = (case a of Some x \<Rightarrow> Some x | None \<Rightarrow> b)"

definition is_ws :: "char \<Rightarrow> bool" where
  "is_ws c = (c \<in> set [CHR 0x09, CHR 0x0A, CHR 0x0B, CHR 0x0C, CHR 0x0D, CHR 0x20, CHR 0xA0])"

definition js_trim :: "string \<Rightarrow> string" where
  "js_trim s = rev (dropWhile is_ws (rev (dropWhile is_ws s)))"

text \<open>\<open>safeStr\<close>: \<open>typeof v === 'string' ? v.trim() : ''\<close>.\<close>

definition safeStr :: "string option \<Rightarrow> string" where
  "safeStr v = (case v of Some s \<Rightarrow> js_trim s | None \<Rightarrow> [])"

definition is_digit :: "char \<Rightarrow> bool" where
  "is_digit c = (let n = of_char c :: nat in 48 \<le> n \<and> n \<le> 57)"

text \<open>The regular expression \<^verbatim>\<open>/^(\d{4})-(\d{2})-(\d{2})$/\<close>.\<close>

fun ymd_shape :: "string \<Rightarrow> bool" where
  "ymd_shape [y1, y2, y3, y4, d1, m1, m2, d2, a1, a2] =
     (is_digit y1 \<and> is_digit y2 \<and> is_digit y3 \<and> is_digit y4 \<and> d1 = CHR ''-'' \<and>
      is_digit m1 \<and> is_digit m2 \<and> d2 = CHR ''-'' \<and> is_digit a1 \<and> is_digit a2)"
| "ymd_shape _ = False"

text \<open>
  \<open>toLowerCase\<close> on code units below 256: \<open>A\<close>..\<open>Z\<close> and the Latin-1 capitals
  \<open>0xC0\<close>..\<open>0xDE\<close> (but not the multiplication sign \<open>0xD7\<close>) move up by 32.
  \<open>toUpperCase\<close> is its mirror image; the three code units whose upper case is not a
  single code unit below 256 (\<open>0xB5\<close>, \<open>0xDF\<close>, \<open>0xFF\<close>) are left as they are.
\<close>

definition lower_char :: "char \<Rightarrow> char" where
  "lower_char c =
     (let n = of_char c :: nat
      in if (65 \<le> n \<and> n \<le> 90) \<or> (192 \<le> n \<and> n \<le> 222 \<and> n \<noteq> 215)
         then char_of (n + 32) else c)"

definition toLowerCase :: "string \<Rightarrow> string" where
  "toLowerCase s = map lower_char s"

definition upper_char :: "char \<Rightarrow> char" where
  "upper_char c =
     (let n = of_char c :: nat
      in if (97 \<le> n \<and> n \<le> 122) \<or> (224 \<le> n \<and> n \<le> 254 \<and> n \<noteq> 247)
         then char_of (n - 32) else c)"

definition toUpperCase :: "string \<Rightarrow> string" where
  "toUpperCase s = map upper_char s"

subsection \<open>Stripe objects (the fields the handlers read)\<close>

record session =
  ses_id :: string
  ses_metadata :: "(string \<times> string) list"
  ses_cd_email :: "string option"
  ses_cd_name :: "string option"
  ses_cd_phone :: "string option"
  ses_customer_email :: "string option"
  ses_amount_total :: "int option"
  ses_currency :: "string option"
  ses_payment_status :: string
  ses_created :: "int option"
  ses_livemode :: "bool option"

record payment_intent =
  pi_id :: string

record charge =
  ch_id :: string
  ch_payment_intent :: "string option"
  ch_amount_refunded :: int
  ch_currency :: string

datatype event_data =
    CheckoutSessionCompleted session
  | CheckoutSessionAsyncPaymentSucceeded session
  | CheckoutSessionAsyncPaymentFailed session
  | CheckoutSessionExpired session
  | PaymentIntentSucceeded payment_intent
  | PaymentIntentPaymentFailed payment_intent
  | ChargeRefunded charge
  | OtherEvent string

record stripe_event =
  evt_id :: string
  evt_data :: event_data

text \<open>\<open>event.type\<close>; \<open>OtherEvent t\<close> is an event of any type the switch has no case for.\<close>

fun evt_type :: "event_data \<Rightarrow> string" where
  "evt_type (CheckoutSessionCompleted _) = ''checkout.session.completed''"
| "evt_type (CheckoutSessionAsyncPaymentSucceeded _) = ''checkout.session.async_payment_succeeded''"
| "evt_type (CheckoutSessionAsyncPaymentFailed _) = ''checkout.session.async_payment_failed''"
| "evt_type (CheckoutSessionExpired _) = ''checkout.session.expired''"
| "evt_type (PaymentIntentSucceeded _) = ''payment_intent.succeeded''"
| "evt_type (PaymentIntentPaymentFailed _) = ''payment_intent.payment_failed''"
| "evt_type (ChargeRefunded _) = ''charge.refunded''"
| "evt_type (OtherEvent t) = t"

subsection \<open>The store: tables \<open>bookings\<close> and \<open>events\<close>, and the outbox\<close>

datatype booking_status = pending | paid | canceled

record booking =
  bk_id :: nat
  bk_tour_id :: "string option"
  bk_date :: string
  bk_persons :: jsnum
  bk_extras :: "(string \<times> string) list"
  bk_status :: booking_status
  bk_total :: "int option"
  bk_payment_provider :: string
  bk_stripe_session_id :: string
  bk_customer_email :: "string option"
  bk_customer_name :: "string option"
  bk_phone :: "string option"
  bk_currency :: "string option"
  bk_origin_currency :: string
  bk_tour_price_cop :: "jsnum option"

record event_row =
  er_type :: string
  er_payload :: "(string \<times> jval) list"

text \<open>
  A message accepted by the mail API. \<open>em_session\<close> is the session id the message is
  about: the source puts it into the text, the HTML and the invoice
  (\<^verbatim>\<open>${BASE_URL}/booking/${session.id}\<close>). The subject line and the HTML and text
  bodies are not modelled.
\<close>

record email =
  em_from :: string
  em_to :: string
  em_reply_to :: "string option"
  em_session :: string
  em_attachment :: "(string \<times> string) option"

record store =
  bookings :: "booking list"
  events :: "event_row list"
  outbox :: "email list"
  next_id :: nat

subsection \<open>Configuration and the outside world of one delivery\<close>

record config =
  STRIPE_WEBHOOK_SECRET :: "string option"
  STRIPE_SECRET_KEY :: "string option"
  NODE_ENV :: "string option"
  SUPABASE_URL :: "string option"
  SUPABASE_SERVICE_ROLE :: "string option"
  RESEND_API_KEY :: "string option"
  EMAIL_FROM :: "string option"
  EMAIL_REPLY_TO :: "string option"
  BASE_URL :: string

datatype fault = NoFault | ErrorResult | Thrown

datatype send_result = SendOk | SendError string | SendThrows

datatype exn = Exn string

record invoice_input =
  inv_bookingId :: string
  inv_customerName :: "string option"
  inv_customerEmail :: string
  inv_tourTitle :: string
  inv_tourDate :: "string option"
  inv_persons :: jsnum
  inv_totalMinor :: "int option"
  inv_currency :: string

record world =
  w_constructEvent :: "string \<Rightarrow> string \<Rightarrow> string \<Rightarrow> string + stripe_event"
  w_sessions_list :: "string \<Rightarrow> session list option"
  w_tour_by_slug :: "string \<Rightarrow> string option option"
  w_tour_by_title :: "string \<Rightarrow> string option option"
  w_sel_bookings :: "string \<Rightarrow> fault"
  w_upd_bookings :: "nat \<Rightarrow> fault"
  w_ins_bookings :: "booking \<Rightarrow> fault"
  w_sel_events :: "string \<Rightarrow> string \<Rightarrow> string \<Rightarrow> fault"
  w_ins_events :: "event_row \<Rightarrow> fault"
  w_buildInvoicePdf :: "invoice_input \<Rightarrow> string option"
  w_buildInvoiceFileName :: "string \<Rightarrow> int option \<Rightarrow> string"
  w_resend_send :: "email \<Rightarrow> send_result"
  w_Number :: "string \<Rightarrow> jsnum"
  w_date_valid :: "string \<Rightarrow> bool"
  w_strip_accents :: "string \<Rightarrow> string"
  w_today :: string

text \<open>
  \<^item> \<open>w_constructEvent rawBody sig secret\<close> is \<^verbatim>\<open>stripe.webhooks.constructEvent\<close>:
    \<open>Inl msg\<close> when it throws (the signature does not verify), else the event.
  \<^item> \<open>w_sessions_list pi\<close> is \<^verbatim>\<open>checkout.sessions.list({payment_intent, limit: 1})\<close>,
    \<open>None\<close> when it throws.
  \<^item> \<open>w_tour_by_slug\<close>, \<open>w_tour_by_title\<close>: the two reads of table \<open>tours\<close> (a table the
    webhook never writes): \<open>None\<close> when the call throws, \<open>Some None\<close> when it gives no
    row or an error result, \<open>Some (Some id)\<close> when it gives a row.
  \<^item> \<open>w_sel_bookings\<close>, \<open>w_upd_bookings\<close>, \<open>w_ins_bookings\<close>, \<open>w_sel_events\<close>,
    \<open>w_ins_events\<close>: whether that database call works (\<open>NoFault\<close>), returns
    \<open>{error}\<close> (\<open>ErrorResult\<close>: a constraint, a missing column, the network) or throws.
  \<^item> \<open>w_buildInvoicePdf\<close> is \<^verbatim>\<open>buildInvoicePdf\<close>, \<open>None\<close> when it throws, else the
    document in base64; \<open>w_buildInvoiceFileName title created\<close> is
    \<^verbatim>\<open>buildInvoiceFileName\<close>; \<open>w_resend_send\<close> is \<^verbatim>\<open>resend.emails.send\<close>.
  \<^item> \<open>w_Number\<close> is JavaScript's \<open>Number(string)\<close>; \<open>w_date_valid ymd\<close> says that
    \<^verbatim>\<open>new Date(ymd + 'T00:00:00Z')\<close> is a valid date; \<open>w_strip_accents x\<close> is
    \<^verbatim>\<open>x.normalize('NFKD').replace(/[\u0300-\u036f]/g, '')\<close>; \<open>w_today\<close> is \<^verbatim>\<open>new Date().toISOString().slice(0, 10)\<close>.
\<close>

subsection \<open>Database calls\<close>

text \<open>
  The result of \<^verbatim>\<open>.select(...).maybeSingle()\<close>: the row or \<open>null\<close> when at most one
  row matches, an error when several do.
\<close>

datatype 'a query = Rows "'a option" | QError | QThrow

definition maybeSingle :: "fault \<Rightarrow> 'a list \<Rightarrow> 'a query" where
  "maybeSingle f rows =
     (case f of
        Thrown \<Rightarrow> QThrow
      | ErrorResult \<Rightarrow> QError
      | NoFault \<Rightarrow> (case rows of [] \<Rightarrow> Rows None | [r] \<Rightarrow> Rows (Some r) | _ \<Rightarrow> QError))"

text \<open>\<^verbatim>\<open>.eq('type', t).contains('payload', { k: v })\<close> on table \<open>events\<close>.\<close>

definition events_matching :: "string \<Rightarrow> string \<Rightarrow> string \<Rightarrow> store \<Rightarrow> event_row list" where
  "events_matching t k v s =
     filter (\<lambda>r. er_type r = t \<and> map_of (er_payload r) k = Some (JStr v)) (events s)"

definition bookings_by_session :: "string \<Rightarrow> store \<Rightarrow> booking list" where
  "bookings_by_session sid s = filter (\<lambda>b. bk_stripe_session_id b = sid) (bookings s)"

text \<open>\<^verbatim>\<open>admin.from('events').insert(row)\<close>; the source never looks at the result.\<close>

definition insert_event :: "world \<Rightarrow> event_row \<Rightarrow> store \<Rightarrow> fault \<times> store" where
  "insert_event w row s =
     (case w_ins_events w row of
        NoFault \<Rightarrow> (NoFault, s\<lparr>events := events s @ [row]\<rparr>)
      | f \<Rightarrow> (f, s))"

text \<open>\<open>logEvent\<close>: insert inside \<^verbatim>\<open>try { ... } catch { /* noop */ }\<close>.\<close>

definition logEvent :: "world \<Rightarrow> string \<Rightarrow> (string \<times> jval) list \<Rightarrow> store \<Rightarrow> store" where
  "logEvent w t payload s = snd (insert_event w \<lparr>er_type = t, er_payload = payload\<rparr> s)"

text \<open>\<open>seenOrMarkEvent\<close> (best effort: any throw answers \<open>false\<close>).\<close>

definition seenOrMarkEvent :: "world \<Rightarrow> string \<Rightarrow> store \<Rightarrow> bool \<times> store" where
  "seenOrMarkEvent w eventId s =
     (case maybeSingle (w_sel_events w ''stripe_event_seen'' ''event_id'' eventId)
             (events_matching ''stripe_event_seen'' ''event_id'' eventId s) of
        QThrow \<Rightarrow> (False, s)
      | Rows (Some r) \<Rightarrow> (True, s)
      | _ \<Rightarrow>
          (False, snd (insert_event w
             \<lparr>er_type = ''stripe_event_seen'', er_payload = [(''event_id'', JStr eventId)]\<rparr> s)))"

definition opt_nonempty :: "string \<Rightarrow> string option" where
  "opt_nonempty x = (if x = [] then None else Some x)"

definition updateBookingStatusBySessionId ::
  "world \<Rightarrow> string \<Rightarrow> booking_status \<Rightarrow> store \<Rightarrow> exn option \<times> store" where
  "updateBookingStatusBySessionId w stripe_session_id nextStatus s =
     (case maybeSingle (w_sel_bookings w stripe_session_id)
             (bookings_by_session stripe_session_id s) of
        QThrow \<Rightarrow> (Some (Exn ''bookings select''), s)
      | QError \<Rightarrow> (Some (Exn ''bookings select''), s)
      | Rows None \<Rightarrow> (None, s)
      | Rows (Some existing) \<Rightarrow>
          if bk_status existing \<noteq> nextStatus then
            (case w_upd_bookings w (bk_id existing) of
               NoFault \<Rightarrow>
                 (None, s\<lparr>bookings :=
                     map (\<lambda>b. if bk_id b = bk_id existing then b\<lparr>bk_status := nextStatus\<rparr> else b)
                       (bookings s)\<rparr>)
             | _ \<Rightarrow> (Some (Exn ''bookings update''), s))
          else (None, s))"

definition is_lower_alnum :: "char \<Rightarrow> bool" where
  "is_lower_alnum c = (let n = of_char c :: nat in (97 \<le> n \<and> n \<le> 122) \<or> (48 \<le> n \<and> n \<le> 57))"

text \<open>\<^verbatim>\<open>.replace(/[^a-z0-9]+/g, '-')\<close>: every run of other characters becomes one dash.\<close>

function squash_runs :: "string \<Rightarrow> string" where
  "squash_runs [] = []"
| "squash_runs (c # cs) =
     (if is_lower_alnum c then c # squash_runs cs
      else CHR ''-'' # squash_runs (dropWhile (\<lambda>d. \<not> is_lower_alnum d) cs))"
  by pat_completeness auto
termination
  by (relation "measure length") (auto simp: less_Suc_eq_le length_dropWhile_le)

text \<open>\<^verbatim>\<open>.replace(/^-+|-+$/g, '')\<close>.\<close>

definition strip_dashes :: "string \<Rightarrow> string" where
  "strip_dashes x =
     rev (dropWhile (\<lambda>c. c = CHR ''-'') (rev (dropWhile (\<lambda>c. c = CHR ''-'') x)))"

definition toKebab :: "world \<Rightarrow> string option \<Rightarrow> string" where
  "toKebab w str =
     strip_dashes (squash_runs (toLowerCase (w_strip_accents w
       (safeStr (if str_truthy str then str else Some [])))))"

definition parseYMD :: "world \<Rightarrow> string \<Rightarrow> string option" where
  "parseYMD w ymd =
     (if ymd = [] then None
      else if \<not> ymd_shape ymd then None
      else if w_date_valid w ymd then Some ymd else None)"

text \<open>
  The locals that \<open>upsertBookingFromSession\<close> computes from the session before it
  touches table \<open>bookings\<close>.
\<close>

record session_values =
  sv_customer_email :: string
  sv_customer_name :: string
  sv_phone :: string
  sv_quantity :: jsnum
  sv_dateStr :: string
  sv_tour_id :: "string option"
  sv_amount_total :: "int option"
  sv_currency :: "string option"
  sv_origin_currency :: string
  sv_tour_price_cop :: "jsnum option"
  sv_bookingStatus :: booking_status
  sv_stripe_session_id :: string

definition session_values :: "world \<Rightarrow> session \<Rightarrow> session_values" where
  "session_values w session =
     (let meta = map_of (ses_metadata session);
          q0 = (case meta ''quantity'' of Some q \<Rightarrow> w_Number w q | None \<Rightarrow> Fin 0);
          tourSlug = toKebab w (meta ''tour_slug'');
          tourTitle = safeStr (meta ''tour_title'');
          t1 = (if tourSlug \<noteq> [] then w_tour_by_slug w tourSlug else Some None);
          oc1 = safeStr (meta ''origin_currency'');
          oc2 = safeStr (meta ''currency'')
      in \<lparr>sv_customer_email =
            safeStr (nullish (ses_cd_email session)
                       (nullish (ses_customer_email session) (meta ''email''))),
          sv_customer_name = safeStr (nullish (meta ''customer_name'') (ses_cd_name session)),
          sv_phone = safeStr (nullish (meta ''phone'') (ses_cd_phone session)),
          sv_quantity = (if num_truthy q0 then q0 else Fin 1),
          sv_dateStr = (case parseYMD w (safeStr (meta ''date'')) of
                          Some d \<Rightarrow> d | None \<Rightarrow> w_today w),
          sv_tour_id =
            (case t1 of
               None \<Rightarrow> None
             | Some a \<Rightarrow>
                 if \<not> str_truthy a \<and> tourTitle \<noteq> []
                 then (case w_tour_by_title w tourTitle of
                         None \<Rightarrow> None
                       | Some b \<Rightarrow> if str_truthy b then b else None)
                 else if str_truthy a then a else None),
          sv_amount_total = ses_amount_total session,
          sv_currency = opt_nonempty (toUpperCase (safeStr (ses_currency session))),
          sv_origin_currency = (if oc1 \<noteq> [] then oc1 else if oc2 \<noteq> [] then oc2 else ''COP''),
          sv_tour_price_cop =
            (if str_truthy (meta ''tour_price_cop'')
             then Some (w_Number w (the (meta ''tour_price_cop'')))
             else if str_truthy (meta ''tour_price'')
             then Some (w_Number w (the (meta ''tour_price'')))
             else None),
          sv_bookingStatus = (if ses_payment_status session = ''paid'' then paid else pending),
          sv_stripe_session_id = safeStr (Some (ses_id session))\<rparr>)"

text \<open>The columns written by \<^verbatim>\<open>.update({...})\<close> on an existing row.\<close>

definition updated_row :: "session_values \<Rightarrow> booking \<Rightarrow> booking" where
  "updated_row v b =
     b\<lparr>bk_status := sv_bookingStatus v,
       bk_total := sv_amount_total v,
       bk_currency := sv_currency v,
       bk_origin_currency := sv_origin_currency v,
       bk_tour_price_cop := sv_tour_price_cop v,
       bk_payment_provider := ''stripe'',
       bk_customer_email := opt_nonempty (sv_customer_email v),
       bk_customer_name := opt_nonempty (sv_customer_name v),
       bk_phone := opt_nonempty (sv_phone v)\<rparr>"

text \<open>The row of \<^verbatim>\<open>.insert({...})\<close>; its id is generated by the database.\<close>

definition inserted_row :: "session \<Rightarrow> session_values \<Rightarrow> nat \<Rightarrow> booking" where
  "inserted_row session v new_id =
     \<lparr>bk_id = new_id,
      bk_tour_id = sv_tour_id v,
      bk_date = sv_dateStr v,
      bk_persons = sv_quantity v,
      bk_extras = ses_metadata session,
      bk_status = sv_bookingStatus v,
      bk_total = sv_amount_total v,
      bk_payment_provider = ''stripe'',
      bk_stripe_session_id = sv_stripe_session_id v,
      bk_customer_email = opt_nonempty (sv_customer_email v),
      bk_customer_name = opt_nonempty (sv_customer_name v),
      bk_phone = opt_nonempty (sv_phone v),
      bk_currency = sv_currency v,
      bk_origin_currency = sv_origin_currency v,
      bk_tour_price_cop = sv_tour_price_cop v\<rparr>"

definition upsertBookingFromSession :: "world \<Rightarrow> session \<Rightarrow> store \<Rightarrow> (exn + nat) \<times> store" where
  "upsertBookingFromSession w session s =
     (let v = session_values w session;
          stripe_session_id = sv_stripe_session_id v
      in if stripe_session_id = [] then (Inl (Exn ''Missing stripe_session_id''), s)
         else
           (case maybeSingle (w_sel_bookings w stripe_session_id)
                   (bookings_by_session stripe_session_id s) of
              QThrow \<Rightarrow> (Inl (Exn ''bookings select''), s)
            | QError \<Rightarrow> (Inl (Exn ''bookings select''), s)
            | Rows (Some existing) \<Rightarrow>
                (case w_upd_bookings w (bk_id existing) of
                   NoFault \<Rightarrow>
                     (Inr (bk_id existing),
                      s\<lparr>bookings :=
                          map (\<lambda>b. if bk_id b = bk_id existing then updated_row v b else b)
                            (bookings s)\<rparr>)
                 | _ \<Rightarrow> (Inl (Exn ''bookings update''), s))
            | Rows None \<Rightarrow>
                (let row = inserted_row session v (next_id s)
                 in case w_ins_bookings w row of
                      NoFault \<Rightarrow>
                        (Inr (next_id s),
                         s\<lparr>bookings := bookings s @ [row], next_id := Suc (next_id s)\<rparr>)
                    | _ \<Rightarrow> (Inl (Exn ''bookings insert''), s))))"

subsection \<open>The notification dispatcher\<close>

definition int_num :: "int \<Rightarrow> jval" where
  "int_num n = JNum (Fin (of_int n))"

definition opt_str :: "string option \<Rightarrow> jval" where
  "opt_str v = (case v of Some x \<Rightarrow> JStr x | None \<Rightarrow> JNull)"

definition opt_int :: "int option \<Rightarrow> jval" where
  "opt_int v = (case v of Some x \<Rightarrow> int_num x | None \<Rightarrow> JNull)"

definition opt_bool :: "bool option \<Rightarrow> jval" where
  "opt_bool v = (case v of Some x \<Rightarrow> JBool x | None \<Rightarrow> JNull)"

text \<open>
  The \<^verbatim>\<open>catch (err)\<close> of \<open>trySendBookingEmail\<close>: an error object has no
  \<open>session\<close>, so the logged \<open>session_id\<close> is \<open>null\<close>.
\<close>

definition log_send_exception :: "world \<Rightarrow> store \<Rightarrow> store" where
  "log_send_exception w s =
     logEvent w ''invoice_send_exception'' [(''session_id'', JNull), (''error'', JOpaque)] s"

text \<open>The recipient: \<^verbatim>\<open>customer_details?.email || customer_email || ''\<close>.\<close>

definition recipient :: "session \<Rightarrow> string" where
  "recipient session =
     (case or_str (ses_cd_email session) (ses_customer_email session) of
        Some e \<Rightarrow> e | None \<Rightarrow> [])"

definition email_tourTitle :: "session \<Rightarrow> string" where
  "email_tourTitle session =
     (let md = map_of (ses_metadata session)
      in if str_truthy (md ''tour_title'') then the (md ''tour_title'') else ''Tour KCE'')"

text \<open>The first argument of \<open>buildInvoicePdf\<close>.\<close>

definition invoice_of :: "world \<Rightarrow> session \<Rightarrow> string \<Rightarrow> invoice_input" where
  "invoice_of w session to =
     (let md = map_of (ses_metadata session);
          q0 = (if str_truthy (md ''quantity'') then w_Number w (the (md ''quantity'')) else Fin 1)
      in \<lparr>inv_bookingId = ses_id session,
          inv_customerName = (if str_truthy (ses_cd_name session) then ses_cd_name session else None),
          inv_customerEmail = to,
          inv_tourTitle = email_tourTitle session,
          inv_tourDate = (if str_truthy (md ''date'') then md ''date'' else None),
          inv_persons = (if num_truthy q0 then q0 else Fin 1),
          inv_totalMinor = ses_amount_total session,
          inv_currency = toUpperCase (if str_truthy (ses_currency session)
                                       then the (ses_currency session) else ''usd'')\<rparr>)"

text \<open>The argument of \<^verbatim>\<open>resend.emails.send\<close>.\<close>

definition booking_email :: "config \<Rightarrow> world \<Rightarrow> session \<Rightarrow> string \<Rightarrow> string \<Rightarrow> email" where
  "booking_email cfg w session to pdfBuffer =
     (let from0 = js_trim (case EMAIL_FROM cfg of Some f \<Rightarrow> f | None \<Rightarrow> [])
      in \<lparr>em_from = (if from0 \<noteq> [] then from0 else ''KCE <onboarding@resend.dev>''),
          em_to = to,
          em_reply_to = (if str_truthy (EMAIL_REPLY_TO cfg) then EMAIL_REPLY_TO cfg else None),
          em_session = ses_id session,
          em_attachment =
            Some (w_buildInvoiceFileName w (email_tourTitle session) (ses_created session),
                  pdfBuffer)\<rparr>)"

definition trySendBookingEmail :: "config \<Rightarrow> world \<Rightarrow> session \<Rightarrow> store \<Rightarrow> store" where
  "trySendBookingEmail cfg w session s =
     (if \<not> str_truthy (RESEND_API_KEY cfg) then s
      else if recipient session = [] then s
      else
        (case maybeSingle (w_sel_events w ''invoice_sent'' ''session_id'' (ses_id session))
                (events_matching ''invoice_sent'' ''session_id'' (ses_id session) s) of
           QThrow \<Rightarrow> log_send_exception w s
         | Rows (Some already) \<Rightarrow> s
         | _ \<Rightarrow>
             (case w_buildInvoicePdf w (invoice_of w session (recipient session)) of
                None \<Rightarrow> log_send_exception w s
              | Some pdfBuffer \<Rightarrow>
                  (let msg = booking_email cfg w session (recipient session) pdfBuffer
                   in case w_resend_send w msg of
                        SendThrows \<Rightarrow> log_send_exception w s
                      | SendError e \<Rightarrow>
                          logEvent w ''invoice_send_error''
                            [(''session_id'', JStr (ses_id session)),
                             (''email'', JStr (recipient session)), (''error'', JStr e)] s
                      | SendOk \<Rightarrow>
                          logEvent w ''invoice_sent''
                            [(''session_id'', JStr (ses_id session)),
                             (''email'', JStr (recipient session))]
                            (s\<lparr>outbox := outbox s @ [msg]\<rparr>)))))"

subsection \<open>The webhook handler\<close>

text \<open>The \<^verbatim>\<open>switch (event.type)\<close> of \<open>POST\<close>; \<open>Some e\<close> when the block throws.\<close>

definition dispatch :: "config \<Rightarrow> world \<Rightarrow> stripe_event \<Rightarrow> store \<Rightarrow> exn option \<times> store" where
  "dispatch cfg w event s =
     (case evt_data event of
        CheckoutSessionCompleted session \<Rightarrow>
          (case upsertBookingFromSession w session s of
             (Inl e, s1) \<Rightarrow> (Some e, s1)
           | (Inr bookingId, s1) \<Rightarrow>
               (None,
                trySendBookingEmail cfg w session
                  (logEvent w ''stripe_checkout_completed''
                     [(''event_id'', JStr (evt_id event)),
                      (''booking_id'', int_num (int bookingId)),
                      (''session_id'', JStr (ses_id session)),
                      (''amount_total'', opt_int (ses_amount_total session)),
                      (''currency'', opt_str (ses_currency session)),
                      (''livemode'', opt_bool (ses_livemode session))] s1)))
      | CheckoutSessionAsyncPaymentSucceeded session \<Rightarrow>
          (case upsertBookingFromSession w session s of
             (Inl e, s1) \<Rightarrow> (Some e, s1)
           | (Inr bookingId, s1) \<Rightarrow>
               (None,
                trySendBookingEmail cfg w session
                  (logEvent w ''stripe_checkout_async_succeeded''
                     [(''event_id'', JStr (evt_id event)),
                      (''booking_id'', int_num (int bookingId)),
                      (''session_id'', JStr (ses_id session))] s1)))
      | CheckoutSessionAsyncPaymentFailed session \<Rightarrow>
          (None,
           logEvent w ''stripe_checkout_async_failed''
             [(''event_id'', JStr (evt_id event)),
              (''session_id'', JStr (ses_id session)),
              (''last_payment_error'', JOpaque)] s)
      | CheckoutSessionExpired session \<Rightarrow>
          (case (if ses_id session \<noteq> []
                 then updateBookingStatusBySessionId w (ses_id session) canceled s
                 else (None, s)) of
             (Some e, s1) \<Rightarrow> (Some e, s1)
           | (None, s1) \<Rightarrow>
               (None,
                logEvent w ''stripe_checkout_expired''
                  [(''event_id'', JStr (evt_id event)),
                   (''session_id'', JStr (ses_id session))] s1))
      | PaymentIntentSucceeded pint \<Rightarrow>
          (let lookup_error = (\<lambda>s'. logEvent w ''stripe_pi_succeeded_lookup_error''
                                 [(''event_id'', JStr (evt_id event)),
                                  (''pi_id'', JStr (pi_id pint)), (''error'', JOpaque)] s');
               unlinked = logEvent w ''stripe_pi_succeeded_unlinked''
                            [(''event_id'', JStr (evt_id event)), (''pi_id'', JStr (pi_id pint))] s
           in case w_sessions_list w (pi_id pint) of
                None \<Rightarrow> (None, lookup_error s)
              | Some [] \<Rightarrow> (None, unlinked)
              | Some (sess # _) \<Rightarrow>
                  if ses_id sess \<noteq> [] then
                    (case upsertBookingFromSession w sess s of
                       (Inl e, s1) \<Rightarrow> (None, lookup_error s1)
                     | (Inr bookingId, s1) \<Rightarrow>
                         (None,
                          trySendBookingEmail cfg w sess
                            (logEvent w ''stripe_pi_succeeded_linked''
                               [(''event_id'', JStr (evt_id event)),
                                (''pi_id'', JStr (pi_id pint)),
                                (''booking_id'', int_num (int bookingId)),
                                (''session_id'', JStr (ses_id sess))] s1)))
                  else (None, unlinked))
      | PaymentIntentPaymentFailed pint \<Rightarrow>
          (None,
           logEvent w ''stripe_pi_failed''
             [(''event_id'', JStr (evt_id event)), (''pi_id'', JStr (pi_id pint)),
              (''last_payment_error'', JOpaque)] s)
      | ChargeRefunded charge \<Rightarrow>
          (if str_truthy (ch_payment_intent charge) then
             (let piId = the (ch_payment_intent charge);
                  orphan = logEvent w ''stripe_charge_refunded_orphan''
                             [(''event_id'', JStr (evt_id event)),
                              (''charge_id'', JStr (ch_id charge)),
                              (''payment_intent'', JStr piId)] s
              in case w_sessions_list w piId of
                   None \<Rightarrow> (Some (Exn ''sessions list''), s)
                 | Some [] \<Rightarrow> (None, orphan)
                 | Some (sess # _) \<Rightarrow>
                     if ses_id sess \<noteq> [] then
                       (case updateBookingStatusBySessionId w (ses_id sess) canceled s of
                          (Some e, s1) \<Rightarrow> (Some e, s1)
                        | (None, s1) \<Rightarrow>
                            (None,
                             logEvent w ''stripe_charge_refunded''
                               [(''event_id'', JStr (evt_id event)),
                                (''session_id'', JStr (ses_id sess)),
                                (''charge_id'', JStr (ch_id charge)),
                                (''amount_refunded'', int_num (ch_amount_refunded charge)),
                                (''currency'', JStr (ch_currency charge))] s1))
                     else (None, orphan))
           else (None, s))
      | OtherEvent t \<Rightarrow>
          (None,
           logEvent w ''stripe_unhandled_event''
             [(''event_id'', JStr (evt_id event)),
              (''type'', JStr (evt_type (evt_data event)))] s))"

record wh_request =
  rq_signature :: "string option"
  rq_body :: string

datatype response = Json nat "(string \<times> jval) list" | Uncaught exn

definition isProd :: "config \<Rightarrow> bool" where
  "isProd cfg = (NODE_ENV cfg = Some ''production'')"

text \<open>
  \<open>getSupabaseAdmin\<close> reads both variables with \<open>mustGet\<close>, which throws when one is
  unset or empty, trims them and hands them to \<open>createClient\<close>, which throws when the URL
  or the key it is given is empty.
\<close>

definition admin_available :: "config \<Rightarrow> bool" where
  "admin_available cfg =
     (str_truthy (SUPABASE_URL cfg) \<and> str_truthy (SUPABASE_SERVICE_ROLE cfg) \<and>
      js_trim (the (SUPABASE_URL cfg)) \<noteq> [] \<and> js_trim (the (SUPABASE_SERVICE_ROLE cfg)) \<noteq> [])"

definition POST_webhook :: "config \<Rightarrow> world \<Rightarrow> wh_request \<Rightarrow> store \<Rightarrow> response \<times> store" where
  "POST_webhook cfg w req s =
     (if \<not> str_truthy (STRIPE_WEBHOOK_SECRET cfg) \<or> \<not> str_truthy (STRIPE_SECRET_KEY cfg) then
        (if isProd cfg then (Json 500 [(''error'', JStr ''Stripe env not set'')], s)
         else (Json 200 [(''received'', JBool True), (''skipped'', JBool True)], s))
      else if \<not> str_truthy (rq_signature req) then
        (Json 400 [(''error'', JStr ''Missing stripe-signature'')], s)
      else
        (case w_constructEvent w (rq_body req) (the (rq_signature req))
                (the (STRIPE_WEBHOOK_SECRET cfg)) of
           Inl message \<Rightarrow> (Json 400 [(''error'', JStr message)], s)
         | Inr event \<Rightarrow>
             if \<not> admin_available cfg then (Uncaught (Exn ''Missing env''), s)
             else
               (case seenOrMarkEvent w (evt_id event) s of
                  (True, s1) \<Rightarrow>
                    (Json 200 [(''received'', JBool True), (''duplicate'', JBool True),
                               (''event_id'', JStr (evt_id event))], s1)
                | (False, s1) \<Rightarrow>
                    (case dispatch cfg w event s1 of
                       (Some err, s2) \<Rightarrow>
                         (if isProd cfg then (Json 500 [(''error'', JStr ''Handler failure'')], s2)
                          else (Json 200 [(''received'', JBool True), (''dev'', JBool True)], s2))
                     | (None, s2) \<Rightarrow> (Json 200 [(''received'', JBool True)], s2)))))"

text \<open>Deliveries processed one after the other, each in its own world.\<close>

fun deliver_all :: "config \<Rightarrow> (world \<times> wh_request) list \<Rightarrow> store \<Rightarrow> store" where
  "deliver_all cfg [] s = s"
| "deliver_all cfg ((w, req) # ds) s = deliver_all cfg ds (snd (POST_webhook cfg w req s))"

definition empty_store :: store where
  "empty_store = \<lparr>bookings = [], events = [], outbox = [], next_id = 0\<rparr>"

section \<open>The checkout handler\<close>

subsection \<open>Numbers\<close>

text \<open>
  Arithmetic of JavaScript numbers (IEEE 754 binary64, round to nearest, ties to even),
  as far as the handler uses it. \<open>Fin 0\<close> stands for both zeros.

  \<open>pow2 e\<close> is \<open>2\<close> to the power \<open>e\<close>; \<open>bexp x\<close>, for a positive \<open>x\<close>, is the binary
  exponent of \<open>x\<close>: the \<open>e\<close> with \<open>pow2 e \<le> x < pow2 (e + 1)\<close>, found from the bit
  lengths of numerator and denominator.
\<close>

definition pow2 :: "int \<Rightarrow> rat" where
  "pow2 e = (if 0 \<le> e then 2 ^ nat e else 1 / 2 ^ nat (- e))"

definition round_half_even :: "rat \<Rightarrow> int" where
  "round_half_even x =
     (let f = \<lfloor>x\<rfloor>; d = x - of_int f
      in if d < 1 / 2 then f else if 1 / 2 < d then f + 1 else if even f then f else f + 1)"

definition bexp :: "rat \<Rightarrow> int" where
  "bexp x =
     (let (p, q) = quotient_of x;
          e0 = bitlen p - bitlen q
      in if pow2 e0 \<le> x then e0 else e0 - 1)"

text \<open>
  The double nearest to a rational. The doubles around \<open>x\<close> are the multiples of
  \<open>pow2 q\<close>, where \<open>q\<close> is the exponent of \<open>x\<close> less the 52 fraction bits, and at least
  \<open>-1074\<close> (subnormal numbers); a result with an exponent of 1024 or more is an
  overflow.
\<close>

definition to_double :: "rat \<Rightarrow> jsnum" where
  "to_double x =
     (if x = 0 then Fin 0
      else
        let a = \<bar>x\<bar>;
            q = max (bexp a - 52) (- 1074);
            y = of_int (round_half_even (a / pow2 q)) * pow2 q
        in if 1024 \<le> bexp y then (if 0 < x then PInf else NInf)
           else Fin (if 0 < x then y else - y))"

fun js_div :: "jsnum \<Rightarrow> jsnum \<Rightarrow> jsnum" where
  "js_div (Fin a) (Fin b) =
     (if b \<noteq> 0 then to_double (a / b) else if a > 0 then PInf else if a < 0 then NInf else NaN)"
| "js_div (Fin a) PInf = Fin 0"
| "js_div (Fin a) NInf = Fin 0"
| "js_div PInf (Fin b) = (if b < 0 then NInf else PInf)"
| "js_div NInf (Fin b) = (if b < 0 then PInf else NInf)"
| "js_div _ _ = NaN"

text \<open>Multiplication by a positive finite constant.\<close>

fun js_scale :: "rat \<Rightarrow> jsnum \<Rightarrow> jsnum" where
  "js_scale k (Fin a) = to_double (k * a)"
| "js_scale k x = x"

text \<open>
  \<open>Math.round\<close>: the nearest integer, a tie going up; \<open>Math.floor\<close>, \<open>Math.max\<close> and
  \<open>Math.min\<close>. Their results on doubles are exact.
\<close>

fun js_round :: "jsnum \<Rightarrow> jsnum" where
  "js_round (Fin a) = Fin (of_int \<lfloor>a + 1 / 2\<rfloor>)"
| "js_round x = x"

fun js_floor :: "jsnum \<Rightarrow> jsnum" where
  "js_floor (Fin a) = Fin (of_int \<lfloor>a\<rfloor>)"
| "js_floor x = x"

fun js_max :: "jsnum \<Rightarrow> jsnum \<Rightarrow> jsnum" where
  "js_max NaN _ = NaN"
| "js_max _ NaN = NaN"
| "js_max PInf _ = PInf"
| "js_max _ PInf = PInf"
| "js_max NInf y = y"
| "js_max x NInf = x"
| "js_max (Fin a) (Fin b) = Fin (max a b)"

fun js_min :: "jsnum \<Rightarrow> jsnum \<Rightarrow> jsnum" where
  "js_min NaN _ = NaN"
| "js_min _ NaN = NaN"
| "js_min NInf _ = NInf"
| "js_min _ NInf = NInf"
| "js_min PInf y = y"
| "js_min x PInf = x"
| "js_min (Fin a) (Fin b) = Fin (min a b)"

text \<open>Addition of a finite number.\<close>

fun js_plus :: "rat \<Rightarrow> jsnum \<Rightarrow> jsnum" where
  "js_plus k (Fin a) = to_double (k + a)"
| "js_plus k x = x"

subsection \<open>Printing\<close>

definition digit_char :: "nat \<Rightarrow> char" where
  "digit_char n = char_of (48 + n)"

fun show_nat :: "nat \<Rightarrow> string" where
  "show_nat n = (if n < 10 then [digit_char n] else show_nat (n div 10) @ [digit_char (n mod 10)])"

declare show_nat.simps [simp del]

definition show_int :: "int \<Rightarrow> string" where
  "show_int i = (if i < 0 then CHR ''-'' # show_nat (nat (- i)) else show_nat (nat i))"

text \<open>
  \<open>String(n)\<close> and the number syntax of \<open>JSON.stringify\<close>, for the numbers the handler
  prints: integers (in positional notation, as JavaScript prints them below \<open>10^21\<close>).
  \<open>JSON.stringify\<close> prints \<open>null\<close> for a number that is not finite.
\<close>

fun json_number :: "jsnum \<Rightarrow> string" where
  "json_number (Fin a) = show_int \<lfloor>a\<rfloor>"
| "json_number _ = ''null''"

definition hex_digit :: "nat \<Rightarrow> char" where
  "hex_digit n = (if n < 10 then char_of (48 + n) else char_of (55 + n))"

definition lower_hex_digit :: "nat \<Rightarrow> char" where
  "lower_hex_digit n = (if n < 10 then char_of (48 + n) else char_of (87 + n))"

text \<open>The string syntax of \<open>JSON.stringify\<close>.\<close>

definition json_char :: "char \<Rightarrow> string" where
  "json_char c =
     (let n = of_char c :: nat
      in if c = CHR 0x22 then [CHR 0x5C, CHR 0x22]
         else if c = CHR 0x5C then [CHR 0x5C, CHR 0x5C]
         else if n = 8 then [CHR 0x5C, CHR ''b'']
         else if n = 9 then [CHR 0x5C, CHR ''t'']
         else if n = 10 then [CHR 0x5C, CHR ''n'']
         else if n = 12 then [CHR 0x5C, CHR ''f'']
         else if n = 13 then [CHR 0x5C, CHR ''r'']
         else if n < 32 then
           [CHR 0x5C, CHR ''u'', CHR ''0'', CHR ''0'', lower_hex_digit (n div 16),
            lower_hex_digit (n mod 16)]
         else [c])"

definition json_string :: "string \<Rightarrow> string" where
  "json_string s = [CHR 0x22] @ concat (map json_char s) @ [CHR 0x22]"

text \<open>
  \<open>URLSearchParams\<close> serialisation (application/x-www-form-urlencoded): letters,
  digits and \<open>*-._\<close> stay, a space becomes \<open>+\<close>, any other code unit is
  percent-encoded, as two UTF-8 bytes from 128 on.
\<close>

definition pct :: "nat \<Rightarrow> string" where
  "pct n = [CHR ''%'', hex_digit (n div 16), hex_digit (n mod 16)]"

definition form_char :: "char \<Rightarrow> string" where
  "form_char c =
     (let n = of_char c :: nat
      in if (48 \<le> n \<and> n \<le> 57) \<or> (65 \<le> n \<and> n \<le> 90) \<or> (97 \<le> n \<and> n \<le> 122)
            \<or> n = 42 \<or> n = 45 \<or> n = 46 \<or> n = 95 then [c]
         else if n = 32 then ''+''
         else if n < 128 then pct n
         else pct (192 + n div 64) @ pct (128 + n mod 64))"

definition form_encode :: "string \<Rightarrow> string" where
  "form_encode s = concat (map form_char s)"

subsection \<open>Catalog\<close>

text \<open>A \<open>Tour\<close>, with the fields the handler reads.\<close>

record tour =
  t_slug :: string
  t_title :: string
  t_price :: int
  t_short :: "string option"

text \<open>\<open>TOURS\<close> of \<^verbatim>\<open>src/features/tours/data.mock.ts\<close>.\<close>

definition TOURS :: "tour list" where
  "TOURS =
     [\<lparr>t_slug = ''bogota-coffee-culture'',
       t_title = ''Bogot'' @ [CHR 0xE1] @ '' Coffee Culture'',
       t_price = 120000,
       t_short = Some (''Cata de caf'' @ [CHR 0xE9] @ ''s especiales, tosti'' @ [CHR 0xF3]
                       @ ''n artesanal y barrios bohemios.'')\<rparr>,
      \<lparr>t_slug = ''medellin-street-art'',
       t_title = ''Medell'' @ [CHR 0xED] @ ''n Street Art'',
       t_price = 110000,
       t_short = Some (''Graffitis, historia y transformaci'' @ [CHR 0xF3]
                       @ ''n social en Comuna 13.'')\<rparr>,
      \<lparr>t_slug = ''guatape-day-trip'',
       t_title = ''Guatap'' @ [CHR 0xE9] @ '' Day Trip'',
       t_price = 280000,
       t_short = Some (''La piedra del Pe'' @ [CHR 0xF1]
                       @ ''ol, colores vibrantes y paseo en lancha.'')\<rparr>,
      \<lparr>t_slug = ''cartagena-sunset-sail'',
       t_title = ''Cartagena Sunset Sail'',
       t_price = 240000,
       t_short = Some (''Navega al atardecer por la bah'' @ [CHR 0xED]
                       @ ''a con brindis incluido.'')\<rparr>,
      \<lparr>t_slug = ''cocora-valley-hike'',
       t_title = ''Cocora Valley Hike'',
       t_price = 260000,
       t_short = Some ''Sendero entre palmas de cera y paisajes cafeteros.''\<rparr>,
      \<lparr>t_slug = ''tayrona-paradise-beaches'',
       t_title = ''Tayrona Paradise Beaches'',
       t_price = 320000,
       t_short = Some ''Caminata suave y playas cristalinas en el Tayrona.''\<rparr>]"

text \<open>
  \<open>getTourBySlug\<close>: a lookup in the \<open>Map\<close> built from the lower-cased slugs (of two
  entries with one key, the later one stays).
\<close>

definition getTourBySlug :: "tour list \<Rightarrow> string option \<Rightarrow> tour option" where
  "getTourBySlug cat slug =
     (if \<not> str_truthy slug then None
      else find (\<lambda>t. toLowerCase (t_slug t) = toLowerCase (the slug)) (rev cat))"

subsection \<open>Request, environment and validation\<close>

text \<open>
  The JSON body as far as \<open>Schema\<close> looks at it: \<open>None\<close> is a missing key, and an
  object that is missing or not an object is \<open>None\<close> too. A body that is not JSON
  is \<open>{}\<close> (every field \<open>None\<close>).
\<close>

record raw_tour =
  rt_slug :: "jval option"
  rt_title :: "jval option"
  rt_short :: "jval option"
  rt_price :: "jval option"

record raw_customer =
  rc_email :: "jval option"
  rc_name :: "jval option"

record raw_body =
  rb_tour :: "raw_tour option"
  rb_quantity :: "jval option"
  rb_customer :: "raw_customer option"
  rb_date :: "jval option"
  rb_phone :: "jval option"
  rb_currency :: "jval option"
  rb_locale :: "jval option"

record co_request =
  cq_body :: raw_body
  cq_accept_language :: "string option"

text \<open>The parsed \<open>Payload\<close>.\<close>

record payload =
  p_slug :: "string option"
  p_title :: "string option"
  p_short :: "string option"
  p_price :: "int option"
  p_quantity :: int
  p_email :: string
  p_name :: string
  p_date :: string
  p_phone :: "string option"
  p_currency :: string
  p_locale :: "string option"

record line_item =
  li_quantity :: int
  li_currency :: string
  li_unit_amount :: jsnum
  li_name :: string
  li_description :: string

text \<open>
  The parameters of \<^verbatim>\<open>stripe.checkout.sessions.create\<close> without the constant ones
  (\<open>allow_promotion_codes\<close>, \<open>customer_creation\<close>, \<open>after_expiration\<close>);
  \<open>payment_intent_data.metadata\<close> is \<open>cp_metadata\<close> again.
\<close>

record create_params =
  cp_mode :: string
  cp_customer_email :: string
  cp_success_url :: string
  cp_cancel_url :: string
  cp_client_reference_id :: string
  cp_locale :: string
  cp_phone_number_collection :: bool
  cp_expires_at :: jsnum
  cp_line_items :: "line_item list"
  cp_metadata :: "(string \<times> string) list"

text \<open>What Stripe answers: a session, or an error that the SDK throws.\<close>

record stripe_error =
  se_raw_code :: "string option"
  se_code :: "string option"
  se_type :: "string option"
  se_message :: "string option"
  se_raw_message :: "string option"
  se_statusCode :: "int option"

record created_session =
  cs_url :: "string option"
  cs_id :: string

text \<open>
  The environment of one request: the variables of \<open>process.env\<close>, the library
  functions the handler calls and the provider.
  \<^item> \<open>c_site_origin\<close>: the origin of \<open>SITE_URL\<close>, \<open>None\<close> when \<^verbatim>\<open>new URL(path, SITE_URL)\<close>
    throws;
  \<^item> \<open>c_email_ok\<close>: zod's \<open>string().email()\<close>; \<open>c_Number\<close>: \<open>Number(string)\<close>;
  \<^item> \<open>c_date_ms ymd\<close>: \<^verbatim>\<open>new Date(ymd + 'T00:00:00Z').getTime()\<close>, \<open>None\<close> for \<open>NaN\<close>;
    \<open>c_today_ms\<close>: today's midnight (UTC); \<open>c_now_s\<close>: \<^verbatim>\<open>Math.floor(Date.now() / 1000)\<close>;
  \<^item> \<open>c_sha256_hex\<close>: \<^verbatim>\<open>createHash('sha256').update(s).digest('hex')\<close>;
  \<^item> \<open>c_create params key\<close>: \<^verbatim>\<open>stripe.checkout.sessions.create\<close>.
\<close>

record cenv =
  c_site_origin :: "string option"
  c_isStripeMock :: bool
  c_STRIPE_SECRET_KEY :: "string option"
  c_CATALOG_CURRENCY :: "string option"
  c_STRIPE_COP_USD_RATE :: "string option"
  c_STRIPE_SESSION_EXPIRES_MIN :: "string option"
  c_email_ok :: "string \<Rightarrow> bool"
  c_Number :: "string \<Rightarrow> jsnum"
  c_date_ms :: "string \<Rightarrow> int option"
  c_today_ms :: int
  c_now_s :: int
  c_randomUUID :: string
  c_sha256_hex :: "string \<Rightarrow> string"
  c_create :: "create_params \<Rightarrow> string \<Rightarrow> stripe_error + created_session"

text \<open>Field validators of zod: \<open>None\<close> is an issue.\<close>

definition z_string_min :: "nat \<Rightarrow> jval option \<Rightarrow> string option" where
  "z_string_min n v = (case v of Some (JStr x) \<Rightarrow> if n \<le> length x then Some x else None | _ \<Rightarrow> None)"

definition z_optional :: "(jval option \<Rightarrow> 'a option) \<Rightarrow> jval option \<Rightarrow> 'a option option" where
  "z_optional f v = (case v of None \<Rightarrow> Some None | Some x \<Rightarrow> map_option Some (f (Some x)))"

definition is_integer :: "rat \<Rightarrow> bool" where
  "is_integer q = (of_int \<lfloor>q\<rfloor> = q)"

text \<open>\<^verbatim>\<open>z.number().int().min(lo)\<close>, with \<^verbatim>\<open>.max(hi)\<close> when \<open>hi\<close> is given.\<close>

definition z_int_range :: "int \<Rightarrow> int option \<Rightarrow> jval option \<Rightarrow> int option" where
  "z_int_range lo hi v =
     (case v of
        Some (JNum (Fin q)) \<Rightarrow>
          if is_integer q \<and> lo \<le> \<lfloor>q\<rfloor> \<and> (case hi of None \<Rightarrow> True | Some h \<Rightarrow> \<lfloor>q\<rfloor> \<le> h)
          then Some \<lfloor>q\<rfloor> else None
      | _ \<Rightarrow> None)"

definition z_string_max :: "nat \<Rightarrow> jval option \<Rightarrow> string option" where
  "z_string_max n v = (case v of Some (JStr x) \<Rightarrow> if length x \<le> n then Some x else None | _ \<Rightarrow> None)"

definition z_currency :: "jval option \<Rightarrow> string option" where
  "z_currency v =
     (case v of
        None \<Rightarrow> Some ''COP''
      | Some (JStr x) \<Rightarrow> if x = ''COP'' \<or> x = ''USD'' then Some x else None
      | _ \<Rightarrow> None)"

text \<open>\<open>Schema.safeParse\<close>: the payload, or \<open>None\<close> when there is an issue.\<close>

definition Schema :: "cenv \<Rightarrow> raw_body \<Rightarrow> payload option" where
  "Schema env raw =
     (case rb_tour raw of
        None \<Rightarrow> None
      | Some t \<Rightarrow>
     (case z_optional (z_string_min 1) (rt_slug t) of None \<Rightarrow> None | Some slug \<Rightarrow>
     (case z_optional (z_string_min 1) (rt_title t) of None \<Rightarrow> None | Some title \<Rightarrow>
     (case z_optional (z_string_min 0) (rt_short t) of None \<Rightarrow> None | Some short \<Rightarrow>
     (case z_optional (z_int_range 0 None) (rt_price t) of None \<Rightarrow> None | Some price \<Rightarrow>
     if \<not> (str_truthy slug \<or> str_truthy title) then None else
     (case z_int_range 1 (Some 20) (rb_quantity raw) of None \<Rightarrow> None | Some quantity \<Rightarrow>
     (case rb_customer raw of None \<Rightarrow> None | Some c \<Rightarrow>
     (case z_string_min 0 (rc_email c) of None \<Rightarrow> None | Some email \<Rightarrow>
     if \<not> c_email_ok env email then None else
     (case z_string_min 2 (rc_name c) of None \<Rightarrow> None | Some name \<Rightarrow>
     (case z_string_min 0 (rb_date raw) of None \<Rightarrow> None | Some date \<Rightarrow>
     if \<not> ymd_shape date then None else
     (case z_optional (z_string_min 0) (rb_phone raw) of None \<Rightarrow> None | Some phone \<Rightarrow>
     (case z_currency (rb_currency raw) of None \<Rightarrow> None | Some currency \<Rightarrow>
     (case z_optional (z_string_max 10) (rb_locale raw) of None \<Rightarrow> None | Some locale \<Rightarrow>
       Some \<lparr>p_slug = slug, p_title = title, p_short = short, p_price = price,
             p_quantity = quantity, p_email = email, p_name = name, p_date = date,
             p_phone = phone, p_currency = currency, p_locale = locale\<rparr>)))))))))))))"

subsection \<open>Helpers of the handler\<close>

definition co_parseYMD :: "cenv \<Rightarrow> string \<Rightarrow> string option" where
  "co_parseYMD env ymd =
     (if \<not> ymd_shape ymd then None
      else (case c_date_ms env ymd of None \<Rightarrow> None | Some d \<Rightarrow> Some ymd))"

definition isTodayOrFuture :: "cenv \<Rightarrow> string \<Rightarrow> bool" where
  "isTodayOrFuture env ymd =
     (case co_parseYMD env ymd of
        None \<Rightarrow> False
      | Some ok \<Rightarrow> (case c_date_ms env ok of None \<Rightarrow> False | Some d \<Rightarrow> d \<ge> c_today_ms env))"

text \<open>\<^verbatim>\<open>Number(process.env.V || dflt)\<close>.\<close>

definition env_number :: "cenv \<Rightarrow> string option \<Rightarrow> rat \<Rightarrow> jsnum" where
  "env_number env v dflt = (if str_truthy v then c_Number env (the v) else Fin dflt)"

definition copToUsdCents :: "cenv \<Rightarrow> int \<Rightarrow> jsnum" where
  "copToUsdCents env cop =
     (let rate = env_number env (c_STRIPE_COP_USD_RATE env) 4000;
          usd = js_div (Fin (of_int cop)) rate
      in js_max (Fin 1) (js_round (js_scale 100 usd)))"

definition starts_with :: "string \<Rightarrow> string \<Rightarrow> bool" where
  "starts_with pre x = (take (length pre) x = pre)"

definition inferLocale :: "string option \<Rightarrow> string option \<Rightarrow> string" where
  "inferLocale accept_language override =
     (let ov = toLowerCase (case override of Some x \<Rightarrow> x | None \<Rightarrow> []);
          raw = toLowerCase (case accept_language of Some x \<Rightarrow> x | None \<Rightarrow> []);
          hint = js_trim (takeWhile (\<lambda>c. c \<noteq> CHR '','') raw)
      in if str_truthy override \<and> starts_with ''es'' ov then ''es-419''
         else if str_truthy override \<and> starts_with ''en'' ov then ''en''
         else if starts_with ''es'' hint then ''es-419''
         else if starts_with ''en'' hint then ''en''
         else ''auto'')"

definition buildSuccessUrl :: "string \<Rightarrow> string \<Rightarrow> string \<Rightarrow> string \<Rightarrow> int \<Rightarrow> string" where
  "buildSuccessUrl origin sessionPlaceholder slug date qty =
     origin @ ''/checkout/success?session_id='' @ form_encode sessionPlaceholder
       @ ''&tour='' @ form_encode slug @ ''&date='' @ form_encode date
       @ ''&q='' @ form_encode (show_int qty)"

definition buildCancelUrl :: "string \<Rightarrow> string \<Rightarrow> string \<Rightarrow> int \<Rightarrow> string" where
  "buildCancelUrl origin slug date qty =
     origin @ ''/checkout/cancel?tour='' @ form_encode slug @ ''&date='' @ form_encode date
       @ ''&q='' @ form_encode (show_int qty)"

definition mockUrl :: "string \<Rightarrow> string \<Rightarrow> string \<Rightarrow> int \<Rightarrow> string" where
  "mockUrl origin slug date qty =
     origin @ ''/checkout/success?mock=1&q='' @ form_encode (show_int qty)
       @ ''&tour='' @ form_encode slug @ ''&date='' @ form_encode date"

text \<open>The catalog entry of a payload: by slug, else by title (compared in lower case).\<close>

definition resolve_tour :: "tour list \<Rightarrow> payload \<Rightarrow> tour option" where
  "resolve_tour cat d =
     (case getTourBySlug cat (p_slug d) of
        Some t \<Rightarrow> Some t
      | None \<Rightarrow>
          if str_truthy (p_title d)
          then find (\<lambda>t. toLowerCase (t_title t) = toLowerCase (the (p_title d))) cat
          else None)"

definition catalogCurrency :: "cenv \<Rightarrow> string" where
  "catalogCurrency env =
     (if str_truthy (c_CATALOG_CURRENCY env) then toUpperCase (the (c_CATALOG_CURRENCY env))
      else ''COP'')"

definition unitAmountCents :: "cenv \<Rightarrow> int \<Rightarrow> jsnum" where
  "unitAmountCents env price =
     (if catalogCurrency env = ''USD'' then js_max (Fin 1) (Fin (of_int price))
      else copToUsdCents env price)"

text \<open>
  The separator of the product description; its dash is U+2014, written here as the
  three bytes of its UTF-8 form.
\<close>

definition fecha_sep :: string where
  "fecha_sep = '' '' @ [CHR 0xE2, CHR 0x80, CHR 0x94] @ '' Fecha: ''"

text \<open>The argument of the hash: \<open>JSON.stringify\<close> of the seven fields, in this order.\<close>

definition idem_json ::
  "string \<Rightarrow> string \<Rightarrow> int \<Rightarrow> string \<Rightarrow> jsnum \<Rightarrow> string \<Rightarrow> string \<Rightarrow> string" where
  "idem_json slug date qty email amount success_url cancel_url =
     ''{'' @ json_string ''slug'' @ '':'' @ json_string slug
       @ '','' @ json_string ''date'' @ '':'' @ json_string date
       @ '','' @ json_string ''qty'' @ '':'' @ show_int qty
       @ '','' @ json_string ''email'' @ '':'' @ json_string email
       @ '','' @ json_string ''unitAmountCents'' @ '':'' @ json_number amount
       @ '','' @ json_string ''success_url'' @ '':'' @ json_string success_url
       @ '','' @ json_string ''cancel_url'' @ '':'' @ json_string cancel_url @ ''}''"

definition idemKey ::
  "cenv \<Rightarrow> string \<Rightarrow> string \<Rightarrow> int \<Rightarrow> string \<Rightarrow> jsnum \<Rightarrow> string \<Rightarrow> string \<Rightarrow> string" where
  "idemKey env slug date qty email amount success_url cancel_url =
     c_sha256_hex env (idem_json slug date qty email amount success_url cancel_url)"

subsection \<open>\<open>POST /checkout\<close>\<close>

text \<open>The \<^verbatim>\<open>catch (e)\<close> of the handler, for an error thrown by the Stripe SDK.\<close>

definition stripe_failure :: "string \<Rightarrow> stripe_error \<Rightarrow> response" where
  "stripe_failure reqId e =
     (let code = (if str_truthy (se_raw_code e) then the (se_raw_code e)
                  else if str_truthy (se_code e) then the (se_code e)
                  else if se_type e = Some ''StripeInvalidRequestError''
                  then ''stripe_invalid_request'' else ''unknown_error'');
          msg = (if str_truthy (se_message e) then the (se_message e)
                 else if str_truthy (se_raw_message e) then the (se_raw_message e)
                 else ''Error al iniciar el checkout.'');
          status = (case se_statusCode e of
                      Some n \<Rightarrow> if n \<noteq> 0 then nat n else 500
                    | None \<Rightarrow> 500)
      in Json status [(''error'', JStr msg), (''code'', JStr code), (''requestId'', JStr reqId)])"

text \<open>
  The request to the provider for a payload and its catalog entry: the parameters
  and the idempotency key (steps 3 and 5 of the handler).
\<close>

definition session_request ::
  "cenv \<Rightarrow> string \<Rightarrow> string option \<Rightarrow> payload \<Rightarrow> tour \<Rightarrow> create_params \<times> string" where
  "session_request env origin accept_language d resolved =
     (let success_url = buildSuccessUrl origin ''{CHECKOUT_SESSION_ID}'' (t_slug resolved)
                          (p_date d) (p_quantity d);
          cancel_url = buildCancelUrl origin (t_slug resolved) (p_date d) (p_quantity d);
          amount = unitAmountCents env (t_price resolved);
          metadata =
            [(''date'', p_date d),
             (''quantity'', show_int (p_quantity d)),
             (''tour_title'', t_title resolved),
             (''tour_slug'', t_slug resolved),
             (''tour_price_cop'', show_int (t_price resolved)),
             (''customer_name'', p_name d),
             (''phone'', (case p_phone d of Some x \<Rightarrow> x | None \<Rightarrow> [])),
             (''origin_currency'',
                toUpperCase (if p_currency d \<noteq> [] then p_currency d else ''COP'')),
             (''catalog_currency'', catalogCurrency env)];
          stripeLocale = inferLocale accept_language (p_locale d);
          clientReferenceId = take 500 (t_slug resolved @ '':'' @ p_date d @ '':'' @ p_email d);
          expireMinutes = js_max (Fin 15)
                            (js_min (Fin 60) (env_number env (c_STRIPE_SESSION_EXPIRES_MIN env) 24));
          expires_at = js_plus (of_int (c_now_s env)) (js_scale 60 expireMinutes);
          key = idemKey env (t_slug resolved) (p_date d) (p_quantity d)
                  (toLowerCase (p_email d)) amount success_url cancel_url
      in (\<lparr>cp_mode = ''payment'',
           cp_customer_email = p_email d,
           cp_success_url = success_url,
           cp_cancel_url = cancel_url,
           cp_client_reference_id = clientReferenceId,
           cp_locale = stripeLocale,
           cp_phone_number_collection = (\<not> str_truthy (p_phone d)),
           cp_expires_at = expires_at,
           cp_line_items =
             [\<lparr>li_quantity = p_quantity d,
               li_currency = ''usd'',
               li_unit_amount = amount,
               li_name = t_title resolved,
               li_description =
                 js_trim ((case t_short resolved of Some x \<Rightarrow> x | None \<Rightarrow> [])
                          @ (if p_date d \<noteq> [] then fecha_sep @ p_date d else []))\<rparr>],
           cp_metadata = metadata\<rparr>,
          ''kce_checkout_'' @ key))"

text \<open>
  The handler from step 1 on, for a parsed payload: the response, and the call made to
  the provider when there is one. The fields of an error that is not Stripe's are
  \<open>JOpaque\<close>.
\<close>

definition checkout_steps ::
  "tour list \<Rightarrow> cenv \<Rightarrow> string option \<Rightarrow> payload
     \<Rightarrow> response \<times> (create_params \<times> string) option" where
  "checkout_steps cat env accept_language d =
     (let reqId = c_randomUUID env
      in case resolve_tour cat d of
           None \<Rightarrow>
             (Json 404 [(''error'', JStr ''Tour no encontrado.''),
                        (''requestId'', JStr reqId)], None)
         | Some resolved \<Rightarrow>
             if co_parseYMD env (p_date d) = None then
               (Json 400 [(''error'', JStr (''Fecha inv'' @ [CHR 0xE1] @ ''lida.'')),
                          (''requestId'', JStr reqId)], None)
             else if \<not> isTodayOrFuture env (p_date d) then
               (Json 400 [(''error'', JStr ''La fecha debe ser hoy o futura.''),
                          (''requestId'', JStr reqId)], None)
             else
               (case c_site_origin env of
                  None \<Rightarrow>
                    (Json 500 [(''error'', JOpaque), (''code'', JOpaque),
                               (''requestId'', JStr reqId)], None)
                | Some origin \<Rightarrow>
                    if c_isStripeMock env \<or> \<not> str_truthy (c_STRIPE_SECRET_KEY env) then
                      (Json 200
                         [(''url'', JStr (mockUrl origin (t_slug resolved) (p_date d)
                                            (p_quantity d))),
                          (''requestId'', JStr reqId)], None)
                    else
                      (let call = session_request env origin accept_language d resolved
                       in case c_create env (fst call) (snd call) of
                            Inl e \<Rightarrow> (stripe_failure reqId e, Some call)
                          | Inr session \<Rightarrow>
                              if \<not> str_truthy (cs_url session) then
                                (Json 500 [(''error'', JStr ''Stripe session without URL''),
                                           (''requestId'', JStr reqId)], Some call)
                              else
                                (Json 200 [(''url'', JStr (the (cs_url session))),
                                           (''requestId'', JStr reqId),
                                           (''sessionId'', JStr (cs_id session))],
                                 Some call))))"

text \<open>
  The handler: \<open>Schema.safeParse\<close> of the body (the message of an issue is zod's:
  \<open>JOpaque\<close>), then the steps on the payload.
\<close>

definition POST_checkout ::
  "tour list \<Rightarrow> cenv \<Rightarrow> co_request \<Rightarrow> response \<times> (create_params \<times> string) option" where
  "POST_checkout cat env req =
     (case Schema env (cq_body req) of
        None \<Rightarrow>
          (Json 400 [(''error'', JOpaque), (''requestId'', JStr (c_randomUUID env))], None)
      | Some d \<Rightarrow> checkout_steps cat env (cq_accept_language req) d)"

subsection \<open>The provider's side of the idempotency key\<close>




section \<open>Properties\<close>

subsection \<open>Observations on the store\<close>

text \<open>How many accepted messages are about session \<open>sid\<close>.\<close>

definition mails_for :: "string \<Rightarrow> store \<Rightarrow> nat" where
  "mails_for sid s = length (filter (\<lambda>m. em_session m = sid) (outbox s))"

text \<open>How many \<open>invoice_sent\<close> markers table \<open>events\<close> holds for session \<open>sid\<close>.\<close>

definition markers_for :: "string \<Rightarrow> store \<Rightarrow> nat" where
  "markers_for sid s = length (events_matching ''invoice_sent'' ''session_id'' sid s)"

text \<open>
  The marker ledger works in a world: the read of the marker does not come back
  with an error result, and the write of a marker succeeds.
\<close>

definition ledger_works :: "world \<Rightarrow> bool" where
  "ledger_works w =
     ((\<forall>sid. w_sel_events w ''invoice_sent'' ''session_id'' sid \<noteq> ErrorResult) \<and>
      (\<forall>row. er_type row = ''invoice_sent'' \<longrightarrow> w_ins_events w row = NoFault))"

text \<open>
  For session \<open>sid\<close>, every accepted message has its marker and there is at most one.
\<close>

definition notified_once :: "string \<Rightarrow> store \<Rightarrow> bool" where
  "notified_once sid s = (markers_for sid s = mails_for sid s \<and> mails_for sid s \<le> 1)"


subsection \<open>Observations on a call to the provider\<close>



subsection \<open>Sample data\<close>

definition cfg_live :: config where
  "cfg_live =
     \<lparr>STRIPE_WEBHOOK_SECRET = Some ''whsec_1'', STRIPE_SECRET_KEY = Some ''sk_live_1'',
      NODE_ENV = Some ''production'', SUPABASE_URL = Some ''https://db.kce.travel'',
      SUPABASE_SERVICE_ROLE = Some ''service'', RESEND_API_KEY = Some ''re_1'',
      EMAIL_FROM = None, EMAIL_REPLY_TO = None, BASE_URL = ''https://kce.travel''\<rparr>"

definition cfg_unset :: config where
  "cfg_unset = cfg_live\<lparr>STRIPE_WEBHOOK_SECRET := None, NODE_ENV := Some ''development''\<rparr>"

definition session_1 :: session where
  "session_1 =
     \<lparr>ses_id = ''cs_1'',
      ses_metadata = [(''date'', ''2030-05-01''), (''quantity'', ''3''),
                      (''tour_title'', ''Cartagena Sunset Sail''),
                      (''tour_slug'', ''cartagena-sunset-sail'')],
      ses_cd_email = Some ''ana@example.com'', ses_cd_name = Some ''Ana'',
      ses_cd_phone = None, ses_customer_email = None,
      ses_amount_total = Some 18000, ses_currency = Some ''usd'',
      ses_payment_status = ''paid'', ses_created = Some 1800000000,
      ses_livemode = Some True\<rparr>"

definition session_2 :: session where
  "session_2 = session_1\<lparr>ses_id := ''cs_2'', ses_payment_status := ''unpaid''\<rparr>"

text \<open>
  Three events: \<open>evt_1\<close> completes the paid session, \<open>evt_2\<close> is the payment intent
  of the same session, \<open>evt_3\<close> completes a session that is not paid yet.
\<close>

definition sample_event :: "string \<Rightarrow> stripe_event option" where
  "sample_event body =
     (if body = ''evt_1'' then Some \<lparr>evt_id = ''evt_1'', evt_data = CheckoutSessionCompleted session_1\<rparr>
      else if body = ''evt_2''
      then Some \<lparr>evt_id = ''evt_2'', evt_data = PaymentIntentSucceeded \<lparr>pi_id = ''pi_1''\<rparr>\<rparr>
      else if body = ''evt_3''
      then Some \<lparr>evt_id = ''evt_3'', evt_data = CheckoutSessionCompleted session_2\<rparr>
      else None)"

text \<open>A world where the signature \<open>sig_ok\<close> verifies and every call works.\<close>

definition world_ok :: world where
  "world_ok =
     \<lparr>w_constructEvent =
        (\<lambda>body sig secret.
           if sig = ''sig_ok'' \<and> secret = ''whsec_1''
           then (case sample_event body of
                   Some e \<Rightarrow> Inr e
                 | None \<Rightarrow> Inl ''Unexpected token'')
           else Inl ''No signatures found matching the expected signature for payload''),
      w_sessions_list = (\<lambda>p. if p = ''pi_1'' then Some [session_1] else Some []),
      w_tour_by_slug = (\<lambda>x. Some None),
      w_tour_by_title = (\<lambda>x. Some None),
      w_sel_bookings = (\<lambda>x. NoFault),
      w_upd_bookings = (\<lambda>x. NoFault),
      w_ins_bookings = (\<lambda>x. NoFault),
      w_sel_events = (\<lambda>t k v. NoFault),
      w_ins_events = (\<lambda>x. NoFault),
      w_buildInvoicePdf = (\<lambda>x. Some ''JVBERi0x''),
      w_buildInvoiceFileName = (\<lambda>t c. ''Factura-KCE.pdf''),
      w_resend_send = (\<lambda>m. SendOk),
      w_Number = (\<lambda>x. if x = ''3'' then Fin 3 else NaN),
      w_date_valid = (\<lambda>x. True),
      w_strip_accents = (\<lambda>x. x),
      w_today = ''2030-01-01''\<rparr>"

text \<open>The same world, but the PDF renderer throws.\<close>

definition world_pdf_fails :: world where
  "world_pdf_fails = world_ok\<lparr>w_buildInvoicePdf := (\<lambda>x. None)\<rparr>"




definition world_marker_write_fails :: world where
  "world_marker_write_fails =
     world_ok\<lparr>w_ins_events :=
       (\<lambda>row. if er_type row = ''invoice_sent'' then ErrorResult else NoFault)\<rparr>"

definition world_marker_read_errors :: world where
  "world_marker_read_errors =
     world_ok\<lparr>w_sel_events := (\<lambda>t k v. if t = ''invoice_sent'' then ErrorResult else NoFault)\<rparr>"

definition signed :: "string \<Rightarrow> wh_request" where
  "signed body = \<lparr>rq_signature = Some ''sig_ok'', rq_body = body\<rparr>"

definition unsigned :: "string \<Rightarrow> wh_request" where
  "unsigned body = \<lparr>rq_signature = None, rq_body = body\<rparr>"

text \<open>
  A checkout environment with a real provider, the default rate (4000) and a catalog
  in COP; its hash is the identity, which is enough to compare keys.
\<close>

definition env_live :: cenv where
  "env_live =
     \<lparr>c_site_origin = Some ''https://kce.travel'',
      c_isStripeMock = False,
      c_STRIPE_SECRET_KEY = Some ''sk_live_1'',
      c_CATALOG_CURRENCY = None,
      c_STRIPE_COP_USD_RATE = None,
      c_STRIPE_SESSION_EXPIRES_MIN = None,
      c_email_ok = (\<lambda>e. CHR ''@'' \<in> set e),
      c_Number = (\<lambda>x. NaN),
      c_date_ms = (\<lambda>d. Some 1903910400000),
      c_today_ms = 1893456000000,
      c_now_s = 1893500000,
      c_randomUUID = ''req-1'',
      c_sha256_hex = (\<lambda>x. x),
      c_create = (\<lambda>p k. Inr \<lparr>cs_url = Some ''https://checkout.stripe.com/c/pay/cs_1'',
                              cs_id = ''cs_1''\<rparr>)\<rparr>"

text \<open>A catalog with one tour at 100,000 COP, and a booking of three places on it.\<close>

definition catalog_100k :: "tour list" where
  "catalog_100k =
     [\<lparr>t_slug = ''city-walk'', t_title = ''City Walk'', t_price = 100000, t_short = None\<rparr>]"

definition body_100k :: "jval option \<Rightarrow> raw_body" where
  "body_100k client_price =
     \<lparr>rb_tour = Some \<lparr>rt_slug = Some (JStr ''city-walk''), rt_title = None, rt_short = None,
                       rt_price = client_price\<rparr>,
      rb_quantity = Some (JNum (Fin 3)),
      rb_customer = Some \<lparr>rc_email = Some (JStr ''Ana@Example.com''),
                           rc_name = Some (JStr ''Ana'')\<rparr>,
      rb_date = Some (JStr ''2030-05-01''),
      rb_phone = None, rb_currency = None, rb_locale = None\<rparr>"

definition request_100k :: "jval option \<Rightarrow> co_request" where
  "request_100k client_price =
     \<lparr>cq_body = body_100k client_price, cq_accept_language = Some ''es-CO,es;q=0.9''\<rparr>"

text \<open>What \<open>Schema\<close> makes of that body, whatever valid price the client sends.\<close>

definition payload_100k :: "int option \<Rightarrow> payload" where
  "payload_100k price =
     \<lparr>p_slug = Some ''city-walk'', p_title = None, p_short = None, p_price = price,
      p_quantity = 3, p_email = ''Ana@Example.com'', p_name = ''Ana'', p_date = ''2030-05-01'',
      p_phone = None, p_currency = ''COP'', p_locale = None\<rparr>"

text \<open>The same environment at another moment, for another request id.\<close>

definition env_at :: "int \<Rightarrow> string \<Rightarrow> cenv" where
  "env_at now uuid = env_live\<lparr>c_now_s := now, c_randomUUID := uuid\<rparr>"

text \<open>
  The same environment with \<open>STRIPE_COP_USD_RATE\<close> set to the text \<open>v\<close>, which \<open>Number\<close>
  reads as \<open>x\<close>.
\<close>

definition env_rate :: "string \<Rightarrow> jsnum \<Rightarrow> cenv" where
  "env_rate v x =
     env_live\<lparr>c_STRIPE_COP_USD_RATE := Some v, c_Number := (\<lambda>t. if t = v then x else NaN)\<rparr>"

text \<open>The double that \<open>Number('4998.750312421895')\<close> is.\<close>

definition rate_4998 :: rat where
  "rate_4998 = 2748092046428393 / 549755813888"




section \<open>Proofs\<close>

subsection \<open>What each step does to the store\<close>

lemma insert_event_bookings [simp]: "bookings (snd (insert_event w row s)) = bookings s"
  by (simp add: insert_event_def split: fault.splits)

lemma insert_event_outbox [simp]: "outbox (snd (insert_event w row s)) = outbox s"
  by (simp add: insert_event_def split: fault.splits)

lemma insert_event_next_id [simp]: "next_id (snd (insert_event w row s)) = next_id s"
  by (simp add: insert_event_def split: fault.splits)

lemma logEvent_bookings [simp]: "bookings (logEvent w t p s) = bookings s"
  by (simp add: logEvent_def)

lemma logEvent_outbox [simp]: "outbox (logEvent w t p s) = outbox s"
  by (simp add: logEvent_def)

lemma seenOrMarkEvent_bookings [simp]: "bookings (snd (seenOrMarkEvent w i s)) = bookings s"
  by (simp add: seenOrMarkEvent_def split: query.splits option.splits)

lemma seenOrMarkEvent_outbox [simp]: "outbox (snd (seenOrMarkEvent w i s)) = outbox s"
  by (simp add: seenOrMarkEvent_def split: query.splits option.splits)

lemma trySend_bookings [simp]: "bookings (trySendBookingEmail cfg w session s) = bookings s"
  by (simp add: trySendBookingEmail_def log_send_exception_def Let_def
      split: query.splits option.splits send_result.splits)

lemma maybeSingle_None: "maybeSingle f rows = Rows None \<Longrightarrow> rows = []"
  by (auto simp: maybeSingle_def split: fault.splits list.splits)

lemma maybeSingle_Some: "maybeSingle f rows = Rows (Some r) \<Longrightarrow> rows = [r]"
  by (auto simp: maybeSingle_def split: fault.splits list.splits)

lemma maybeSingle_QError:
  "maybeSingle f rows = QError \<Longrightarrow> f = ErrorResult \<or> 2 \<le> length rows"
  by (auto simp: maybeSingle_def split: fault.splits list.splits)

lemma events_matching_insert_other:
  "er_type row \<noteq> t \<Longrightarrow> events_matching t k v (snd (insert_event w row s)) = events_matching t k v s"
  by (simp add: insert_event_def events_matching_def split: fault.splits)

lemma events_matching_logEvent_other [simp]:
  "t' \<noteq> t \<Longrightarrow> events_matching t k v (logEvent w t' p s) = events_matching t k v s"
  by (simp add: logEvent_def events_matching_insert_other)

lemma events_matching_outbox_upd [simp]:
  "events_matching t k v (s\<lparr>outbox := ob\<rparr>) = events_matching t k v s"
  by (simp add: events_matching_def)

lemma upsert_events [simp]: "events (snd (upsertBookingFromSession w session s)) = events s"
  by (simp add: upsertBookingFromSession_def Let_def split: query.splits option.splits fault.splits)

lemma upsert_outbox [simp]: "outbox (snd (upsertBookingFromSession w session s)) = outbox s"
  by (simp add: upsertBookingFromSession_def Let_def split: query.splits option.splits fault.splits)

lemma updateStatus_events [simp]: "events (snd (updateBookingStatusBySessionId w sid st s)) = events s"
  by (simp add: updateBookingStatusBySessionId_def split: query.splits option.splits fault.splits)

lemma updateStatus_outbox [simp]: "outbox (snd (updateBookingStatusBySessionId w sid st s)) = outbox s"
  by (simp add: updateBookingStatusBySessionId_def split: query.splits option.splits fault.splits)

lemma upsert_events_matching [simp]:
  "events_matching t k v (snd (upsertBookingFromSession w sess s)) = events_matching t k v s"
  by (simp add: events_matching_def)

lemma updateStatus_events_matching [simp]:
  "events_matching t k v (snd (updateBookingStatusBySessionId w x st s)) = events_matching t k v s"
  by (simp add: events_matching_def)




lemma updateStatus_bookings_length [simp]:
  "length (bookings (snd (updateBookingStatusBySessionId w x st s))) = length (bookings s)"
  by (simp add: updateBookingStatusBySessionId_def split: query.splits option.splits fault.splits)

subsection \<open>The handler as a composition of steps\<close>

text \<open>
  The switch applies \<open>upsertBookingFromSession\<close>, \<open>updateBookingStatusBySessionId\<close>,
  \<open>logEvent\<close> (never with the two ledger types) and \<open>trySendBookingEmail\<close>; a
  property that each of them keeps is kept by the switch.
\<close>

lemma dispatch_preserves:
  assumes Q: "Q s"
    and lg: "\<And>s t p. Q s \<Longrightarrow> t \<noteq> ''invoice_sent'' \<Longrightarrow> t \<noteq> ''stripe_event_seen'' \<Longrightarrow> Q (logEvent w t p s)"
    and ml: "\<And>s sess. Q s \<Longrightarrow> Q (trySendBookingEmail cfg w sess s)"
    and up: "\<And>s sess. Q s \<Longrightarrow> Q (snd (upsertBookingFromSession w sess s))"
    and st: "\<And>s sid. Q s \<Longrightarrow> Q (snd (updateBookingStatusBySessionId w sid canceled s))"
  shows "Q (snd (dispatch cfg w e s))"
proof (cases "evt_data e")
  case (CheckoutSessionCompleted session)
  then show ?thesis
    using up [OF Q, of session]
    by (auto simp: dispatch_def split: prod.splits sum.splits intro!: ml lg)
next
  case (CheckoutSessionAsyncPaymentSucceeded session)
  then show ?thesis
    using up [OF Q, of session]
    by (auto simp: dispatch_def split: prod.splits sum.splits intro!: ml lg)
next
  case (CheckoutSessionAsyncPaymentFailed session)
  then show ?thesis using Q by (auto simp: dispatch_def intro!: lg)
next
  case (CheckoutSessionExpired session)
  then show ?thesis
    using st [OF Q, of "ses_id session"] Q
    by (auto simp: dispatch_def split: prod.splits option.splits if_splits intro!: lg)
next
  case (PaymentIntentSucceeded pint)
  show ?thesis
  proof (cases "w_sessions_list w (pi_id pint)")
    case None
    then show ?thesis using Q PaymentIntentSucceeded by (auto simp: dispatch_def intro!: lg)
  next
    case (Some l)
    show ?thesis
    proof (cases l)
      case Nil
      then show ?thesis using Q PaymentIntentSucceeded Some by (auto simp: dispatch_def intro!: lg)
    next
      case (Cons sess rest)
      then show ?thesis
        using up [OF Q, of sess] Q PaymentIntentSucceeded Some
        by (auto simp: dispatch_def Let_def split: prod.splits sum.splits intro!: ml lg)
    qed
  qed
next
  case (PaymentIntentPaymentFailed pint)
  then show ?thesis using Q by (auto simp: dispatch_def intro!: lg)
next
  case (ChargeRefunded charge)
  show ?thesis
  proof (cases "w_sessions_list w (the (ch_payment_intent charge))")
    case None
    then show ?thesis using Q ChargeRefunded by (simp add: dispatch_def Let_def)
  next
    case (Some l)
    show ?thesis
    proof (cases l)
      case Nil
      then show ?thesis using Q ChargeRefunded Some by (auto simp: dispatch_def Let_def intro!: lg)
    next
      case (Cons sess rest)
      then show ?thesis
        using st [OF Q, of "ses_id sess"] Q ChargeRefunded Some
        by (auto simp: dispatch_def Let_def split: prod.splits option.splits intro!: lg)
    qed
  qed
next
  case (OtherEvent t)
  then show ?thesis using Q by (auto simp: dispatch_def intro!: lg)
qed

lemma POST_webhook_snd:
  "snd (POST_webhook cfg w req s) =
     (if \<not> str_truthy (STRIPE_WEBHOOK_SECRET cfg) \<or> \<not> str_truthy (STRIPE_SECRET_KEY cfg)
         \<or> \<not> str_truthy (rq_signature req) then s
      else case w_constructEvent w (rq_body req) (the (rq_signature req))
                  (the (STRIPE_WEBHOOK_SECRET cfg)) of
             Inl m \<Rightarrow> s
           | Inr e \<Rightarrow>
               if \<not> admin_available cfg then s
               else if fst (seenOrMarkEvent w (evt_id e) s)
               then snd (seenOrMarkEvent w (evt_id e) s)
               else snd (dispatch cfg w e (snd (seenOrMarkEvent w (evt_id e) s))))"
  by (simp add: POST_webhook_def split_beta split: sum.splits bool.splits option.splits)

lemma POST_webhook_preserves:
  assumes Q: "Q s"
    and sn: "\<And>s i. Q s \<Longrightarrow> Q (snd (seenOrMarkEvent w i s))"
    and lg: "\<And>s t p. Q s \<Longrightarrow> t \<noteq> ''invoice_sent'' \<Longrightarrow> t \<noteq> ''stripe_event_seen'' \<Longrightarrow> Q (logEvent w t p s)"
    and ml: "\<And>s sess. Q s \<Longrightarrow> Q (trySendBookingEmail cfg w sess s)"
    and up: "\<And>s sess. Q s \<Longrightarrow> Q (snd (upsertBookingFromSession w sess s))"
    and st: "\<And>s sid. Q s \<Longrightarrow> Q (snd (updateBookingStatusBySessionId w sid canceled s))"
  shows "Q (snd (POST_webhook cfg w req s))"
proof -
  have "Q (snd (dispatch cfg w e (snd (seenOrMarkEvent w i s))))" for e i
    by (rule dispatch_preserves [where Q = Q, OF sn [OF Q] lg ml up st])
  with Q sn [OF Q] show ?thesis
    by (simp add: POST_webhook_snd split: sum.splits)
qed




subsection \<open>Missing configuration\<close>

text \<open>
  Claim C10. When \<open>STRIPE_WEBHOOK_SECRET\<close> or \<open>STRIPE_SECRET_KEY\<close> is unset (or
  empty), the webhook handler answers without looking at the request or at the world:
  outside production with status 200 and \<open>{received: true, skipped: true}\<close>, in
  production with status 500; the store is left as it was. The right-hand side
  mentions neither the request nor the world: no signature is verified.
\<close>

theorem dev_mode_bypass:
  assumes "\<not> str_truthy (STRIPE_WEBHOOK_SECRET cfg) \<or> \<not> str_truthy (STRIPE_SECRET_KEY cfg)"
  shows "POST_webhook cfg w req s =
           (if NODE_ENV cfg = Some ''production''
            then Json 500 [(''error'', JStr ''Stripe env not set'')]
            else Json 200 [(''received'', JBool True), (''skipped'', JBool True)], s)"
  using assms by (auto simp: POST_webhook_def isProd_def)

theorem dev_mode_bypass_witness:
  "\<not> str_truthy (STRIPE_WEBHOOK_SECRET cfg_unset)
   \<and> POST_webhook cfg_unset world_ok (unsigned ''{]'') empty_store
       = (Json 200 [(''received'', JBool True), (''skipped'', JBool True)], empty_store)
   \<and> POST_webhook (cfg_unset\<lparr>NODE_ENV := Some ''production''\<rparr>) world_ok (signed ''evt_1'') empty_store
       = (Json 500 [(''error'', JStr ''Stripe env not set'')], empty_store)"
  using dev_mode_bypass [of cfg_unset world_ok "unsigned ''{]''" empty_store]
    dev_mode_bypass [of "cfg_unset\<lparr>NODE_ENV := Some ''production''\<rparr>" world_ok
      "signed ''evt_1''" empty_store]
  by (simp add: cfg_unset_def cfg_live_def)

subsection \<open>Signature enforcement\<close>

text \<open>
  Claim C2. With the webhook secret and the provider key configured, a request whose
  \<open>stripe-signature\<close> header is missing (or empty), or whose signature does not verify
  (\<open>constructEvent\<close>, called on the raw body, throws), is answered with status 400
  and the store is unchanged: no booking is written, no ledger row, no message.
\<close>

theorem webhook_signature_enforcement:
  assumes "str_truthy (STRIPE_WEBHOOK_SECRET cfg)" and "str_truthy (STRIPE_SECRET_KEY cfg)"
    and "\<not> str_truthy (rq_signature req) \<or>
         isl (w_constructEvent w (rq_body req) (the (rq_signature req))
                (the (STRIPE_WEBHOOK_SECRET cfg)))"
  shows "\<exists>msg. POST_webhook cfg w req s = (Json 400 [(''error'', JStr msg)], s)"
  using assms by (auto simp: POST_webhook_def isl_def)

theorem webhook_signature_enforcement_witness:
  "(\<exists>msg. POST_webhook cfg_live world_ok (unsigned ''evt_1'') empty_store
            = (Json 400 [(''error'', JStr msg)], empty_store))
   \<and> (\<exists>msg. POST_webhook cfg_live world_ok \<lparr>rq_signature = Some ''forged'', rq_body = ''evt_1''\<rparr>
              empty_store = (Json 400 [(''error'', JStr msg)], empty_store))"
  using webhook_signature_enforcement [of cfg_live "unsigned ''evt_1''" world_ok empty_store]
    webhook_signature_enforcement [of cfg_live "\<lparr>rq_signature = Some ''forged'', rq_body = ''evt_1''\<rparr>"
      world_ok empty_store]
  by (simp add: cfg_live_def unsigned_def world_ok_def)

subsection \<open>One booking row per session\<close>

lemma updated_row_sid [simp]: "bk_stripe_session_id (updated_row v b) = bk_stripe_session_id b"
  by (simp add: updated_row_def)

lemma inserted_row_sid [simp]: "bk_stripe_session_id (inserted_row session v n) = sv_stripe_session_id v"
  by (simp add: inserted_row_def)

lemma by_session_empty: "bookings_by_session sid s = [] \<Longrightarrow> sid \<notin> bk_stripe_session_id ` set (bookings s)"
  by (auto simp: bookings_by_session_def filter_empty_conv)

lemma map_sid_update: "bk_stripe_session_id \<circ> (\<lambda>b. if P b then updated_row v b else b) = bk_stripe_session_id"
  by (auto simp: fun_eq_iff)

lemma map_sid_status: "bk_stripe_session_id \<circ> (\<lambda>b. if P b then b\<lparr>bk_status := st\<rparr> else b) = bk_stripe_session_id"
  by (auto simp: fun_eq_iff)

lemma upsert_distinct:
  assumes "distinct (map bk_stripe_session_id (bookings s))"
  shows "distinct (map bk_stripe_session_id (bookings (snd (upsertBookingFromSession w session s))))"
  using assms
  by (auto simp: upsertBookingFromSession_def Let_def map_sid_update
        split: query.splits option.splits fault.splits
        dest!: maybeSingle_None by_session_empty)

lemma updateStatus_distinct:
  assumes "distinct (map bk_stripe_session_id (bookings s))"
  shows "distinct (map bk_stripe_session_id (bookings (snd (updateBookingStatusBySessionId w sid st s))))"
  using assms
  by (auto simp: updateBookingStatusBySessionId_def map_sid_status
        split: query.splits option.splits fault.splits)

lemma POST_webhook_distinct:
  assumes "distinct (map bk_stripe_session_id (bookings s))"
  shows "distinct (map bk_stripe_session_id (bookings (snd (POST_webhook cfg w req s))))"
  by (rule POST_webhook_preserves
        [where Q = "\<lambda>s. distinct (map bk_stripe_session_id (bookings s))", OF assms])
     (simp_all add: upsert_distinct updateStatus_distinct)

lemma deliver_all_distinct:
  "distinct (map bk_stripe_session_id (bookings s)) \<Longrightarrow>
   distinct (map bk_stripe_session_id (bookings (deliver_all cfg ds s)))"
proof (induction ds arbitrary: s)
  case Nil
  then show ?case by simp
next
  case (Cons d ds)
  obtain w req where d: "d = (w, req)" by (cases d)
  show ?case
    unfolding d deliver_all.simps
    by (rule Cons.IH) (rule POST_webhook_distinct [OF Cons.prems])
qed

lemma distinct_filter_le1:
  "distinct (map f xs) \<Longrightarrow> length (filter (\<lambda>x. f x = k) xs) \<le> 1"
proof (induction xs)
  case Nil
  then show ?case by simp
next
  case (Cons x xs)
  then show ?case by (force simp: filter_empty_conv image_iff)
qed

text \<open>
  Claim C5. Whatever webhook deliveries are processed one after the other, in whatever
  worlds, table \<open>bookings\<close> never holds more than one row with a given
  \<open>stripe_session_id\<close>, provided it did not before: the upsert selects the row by that
  key, updates it in place when it finds it, and inserts only when there is none.
\<close>

theorem booking_upsert_uniqueness:
  assumes "distinct (map bk_stripe_session_id (bookings s))"
  shows "length (bookings_by_session sid (deliver_all cfg ds s)) \<le> 1"
  unfolding bookings_by_session_def
  by (rule distinct_filter_le1) (rule deliver_all_distinct [OF assms])

theorem booking_upsert_uniqueness_witness:
  "distinct (map bk_stripe_session_id (bookings empty_store))
   \<and> length (bookings_by_session ''cs_1''
         (deliver_all cfg_live [(world_ok, signed ''evt_1''), (world_ok, signed ''evt_2'')]
            empty_store)) \<le> 1"
  using booking_upsert_uniqueness [of empty_store "''cs_1''" cfg_live
      "[(world_ok, signed ''evt_1''), (world_ok, signed ''evt_2'')]"]
  by (simp add: empty_store_def)

subsection \<open>At most one confirmation per session\<close>

lemma mails_for_logEvent [simp]: "mails_for sid (logEvent w t p s) = mails_for sid s"
  by (simp add: mails_for_def)

lemma markers_for_logEvent_other [simp]:
  "t \<noteq> ''invoice_sent'' \<Longrightarrow> markers_for sid (logEvent w t p s) = markers_for sid s"
  by (simp add: markers_for_def)

lemma markers_for_seen [simp]: "markers_for sid (snd (seenOrMarkEvent w i s)) = markers_for sid s"
  by (simp add: markers_for_def seenOrMarkEvent_def events_matching_insert_other
      split: query.splits option.splits)

lemma mails_for_seen [simp]: "mails_for sid (snd (seenOrMarkEvent w i s)) = mails_for sid s"
  by (simp add: mails_for_def)

lemma markers_for_upsert [simp]:
  "markers_for sid (snd (upsertBookingFromSession w sess s)) = markers_for sid s"
  by (simp add: markers_for_def events_matching_def)

lemma mails_for_upsert [simp]:
  "mails_for sid (snd (upsertBookingFromSession w sess s)) = mails_for sid s"
  by (simp add: mails_for_def)

lemma markers_for_updateStatus [simp]:
  "markers_for sid (snd (updateBookingStatusBySessionId w x st s)) = markers_for sid s"
  by (simp add: markers_for_def events_matching_def)

lemma mails_for_updateStatus [simp]:
  "mails_for sid (snd (updateBookingStatusBySessionId w x st s)) = mails_for sid s"
  by (simp add: mails_for_def)

lemma booking_email_session [simp]: "em_session (booking_email cfg w session to pdf) = ses_id session"
  by (simp add: booking_email_def Let_def)

text \<open>The marker row that a successful send writes, as the marker query sees it.\<close>

lemma marker_row_matches:
  "events_matching ''invoice_sent'' ''session_id'' sid
     (snd (insert_event w \<lparr>er_type = ''invoice_sent'',
                            er_payload = [(''session_id'', JStr x), (''email'', JStr to)]\<rparr> s))
   = events_matching ''invoice_sent'' ''session_id'' sid s
     @ (if w_ins_events w \<lparr>er_type = ''invoice_sent'',
                             er_payload = [(''session_id'', JStr x), (''email'', JStr to)]\<rparr> = NoFault
           \<and> x = sid
        then [\<lparr>er_type = ''invoice_sent'',
               er_payload = [(''session_id'', JStr x), (''email'', JStr to)]\<rparr>] else [])"
  by (auto simp: insert_event_def events_matching_def split: fault.splits)

lemma trySend_other_session:
  assumes "ses_id session \<noteq> sid"
  shows "mails_for sid (trySendBookingEmail cfg w session s) = mails_for sid s
       \<and> markers_for sid (trySendBookingEmail cfg w session s) = markers_for sid s"
  using assms
  by (simp add: trySendBookingEmail_def log_send_exception_def Let_def markers_for_def
        logEvent_def marker_row_matches events_matching_insert_other mails_for_def
      split: query.splits option.splits send_result.splits)

lemma trySend_same_session:
  assumes lw: "ledger_works w"
    and inv: "markers_for (ses_id session) s = mails_for (ses_id session) s"
             "mails_for (ses_id session) s \<le> 1"
  shows "markers_for (ses_id session) (trySendBookingEmail cfg w session s)
           = mails_for (ses_id session) (trySendBookingEmail cfg w session s)
       \<and> mails_for (ses_id session) (trySendBookingEmail cfg w session s) \<le> 1"
proof -
  let ?rows = "events_matching ''invoice_sent'' ''session_id'' (ses_id session) s"
  let ?q = "maybeSingle (w_sel_events w ''invoice_sent'' ''session_id'' (ses_id session)) ?rows"
  have len: "length ?rows = mails_for (ses_id session) s"
    using inv by (simp add: markers_for_def)
  have noerr: "?q \<noteq> QError"
    using maybeSingle_QError [of _ ?rows] lw inv len
    by (auto simp: ledger_works_def)
  have ins: "w_ins_events w \<lparr>er_type = ''invoice_sent'', er_payload = p\<rparr> = NoFault" for p
    using lw by (simp add: ledger_works_def)
  show ?thesis
  proof (cases ?q)
    case (Rows r)
    show ?thesis
    proof (cases r)
      case None
      with Rows have "?rows = []" by (auto dest: maybeSingle_None)
      with len have zero: "mails_for (ses_id session) s = 0" "markers_for (ses_id session) s = 0"
        using inv by simp_all
      then have zero': "filter (\<lambda>m. em_session m = ses_id session) (outbox s) = []"
        by (simp add: mails_for_def)
      show ?thesis
        using Rows None zero zero' \<open>?rows = []\<close> ins
        by (simp add: trySendBookingEmail_def log_send_exception_def Let_def markers_for_def
              logEvent_def marker_row_matches events_matching_insert_other mails_for_def
            split: option.splits send_result.splits)
    next
      case (Some a)
      with Rows inv show ?thesis
        by (simp add: trySendBookingEmail_def)
    qed
  next
    case QError
    with noerr show ?thesis by simp
  next
    case QThrow
    with inv show ?thesis
      by (simp add: trySendBookingEmail_def log_send_exception_def)
  qed
qed

lemma trySend_notified_once:
  assumes "ledger_works w" and "notified_once sid s"
  shows "notified_once sid (trySendBookingEmail cfg w session s)"
proof (cases "ses_id session = sid")
  case True
  with assms trySend_same_session [of w session s cfg] show ?thesis
    by (simp add: notified_once_def)
next
  case False
  with assms trySend_other_session [of session sid cfg w s] show ?thesis
    by (simp add: notified_once_def)
qed

lemma POST_webhook_notified_once:
  assumes "ledger_works w" and "notified_once sid s"
  shows "notified_once sid (snd (POST_webhook cfg w req s))"
proof (rule POST_webhook_preserves [where Q = "notified_once sid", OF assms(2)])
  show "notified_once sid (snd (seenOrMarkEvent w i s))" if "notified_once sid s" for s i
    using that by (simp add: notified_once_def)
  show "notified_once sid (logEvent w t p s)"
    if "notified_once sid s" "t \<noteq> ''invoice_sent''" for s t p
    using that by (simp add: notified_once_def)
  show "notified_once sid (trySendBookingEmail cfg w sess s)" if "notified_once sid s" for s sess
    using that assms(1) by (rule trySend_notified_once [rotated])
  show "notified_once sid (snd (upsertBookingFromSession w sess s))"
    if "notified_once sid s" for s sess
    using that by (simp add: notified_once_def)
  show "notified_once sid (snd (updateBookingStatusBySessionId w x canceled s))"
    if "notified_once sid s" for s x
    using that by (simp add: notified_once_def)
qed

lemma deliver_all_notified_once:
  "\<forall>(w, req) \<in> set ds. ledger_works w \<Longrightarrow> notified_once sid s \<Longrightarrow>
   notified_once sid (deliver_all cfg ds s)"
proof (induction ds arbitrary: s)
  case Nil
  then show ?case by simp
next
  case (Cons d ds)
  obtain w req where d: "d = (w, req)" by (cases d)
  have "notified_once sid (snd (POST_webhook cfg w req s))"
    using Cons.prems d by (auto intro: POST_webhook_notified_once)
  then show ?case
    using Cons.prems Cons.IH d by simp
qed

text \<open>
  Claim C6, amended. Take deliveries processed one after the other in worlds where the
  marker ledger works (the read of the marker does not come back with an error, the
  write of the marker succeeds), from a store where, for session \<open>sid\<close>, the
  \<open>invoice_sent\<close> markers match the accepted messages and there is at most one (an
  empty store, for one). Then at most one confirmation message about \<open>sid\<close> is ever
  accepted, whatever the events are (\<open>checkout.session.completed\<close>,
  \<open>payment_intent.succeeded\<close>, repeated or not), and the markers still match the
  messages: a marker is written only after a successful send, and a present marker
  stops the send.
\<close>

theorem notification_at_most_once:
  assumes "\<forall>(w, req) \<in> set ds. ledger_works w"
    and "markers_for sid s = mails_for sid s" and "mails_for sid s \<le> 1"
  shows "mails_for sid (deliver_all cfg ds s) \<le> 1
       \<and> markers_for sid (deliver_all cfg ds s) = mails_for sid (deliver_all cfg ds s)"
  using deliver_all_notified_once [of ds sid s cfg] assms
  by (simp add: notified_once_def)

theorem notification_at_most_once_witness:
  "ledger_works world_ok
   \<and> markers_for ''cs_1'' empty_store = mails_for ''cs_1'' empty_store
   \<and> mails_for ''cs_1''
         (deliver_all cfg_live [(world_ok, signed ''evt_1''), (world_ok, signed ''evt_2'')]
            empty_store) \<le> 1"
  using notification_at_most_once [of "[(world_ok, signed ''evt_1''), (world_ok, signed ''evt_2'')]"
      "''cs_1''" empty_store cfg_live]
  by (simp add: ledger_works_def world_ok_def markers_for_def mails_for_def
        events_matching_def empty_store_def)

text \<open>
  Claim C6 as stated has no condition on the ledger. The marker is best effort:
  \<open>logEvent\<close> swallows a failed write, and a marker read that comes back with an error
  counts as no marker. In a world where the write of the \<open>invoice_sent\<close> row fails, and
  in a world where the read of the marker comes back with an error,
  \<open>checkout.session.completed\<close> followed by \<open>payment_intent.succeeded\<close> for session
  \<open>cs_1\<close> sends two confirmation messages.
\<close>

theorem marker_ledger_failure_counterexample:
  "mails_for ''cs_1'' (deliver_all cfg_live
       [(world_marker_write_fails, signed ''evt_1''), (world_marker_write_fails, signed ''evt_2'')]
       empty_store) = 2
   \<and> mails_for ''cs_1'' (deliver_all cfg_live
         [(world_marker_read_errors, signed ''evt_1''), (world_marker_read_errors, signed ''evt_2'')]
         empty_store) = 2"
  by code_simp

subsection \<open>Event-level idempotency\<close>








subsection \<open>When the invoice cannot be rendered\<close>

text \<open>
  Claim C8, as the code has it. When \<open>buildInvoicePdf\<close> throws, the throw lands in the
  \<^verbatim>\<open>catch\<close> of \<open>trySendBookingEmail\<close>: no message is sent, with or without
  attachment. (The route \<^verbatim>\<open>api/email/booking-confirmation\<close> wraps the rendering in a
  \<^verbatim>\<open>try\<close> of its own and sends without attachment.)
\<close>

theorem pdf_failure_sends_nothing:
  assumes "w_buildInvoicePdf w (invoice_of w session (recipient session)) = None"
  shows "outbox (trySendBookingEmail cfg w session s) = outbox s"
  using assms
  by (simp add: trySendBookingEmail_def log_send_exception_def split: query.splits option.splits)

theorem pdf_failure_sends_nothing_witness:
  "w_buildInvoicePdf world_pdf_fails (invoice_of world_pdf_fails session_1 (recipient session_1)) = None
   \<and> outbox (trySendBookingEmail cfg_live world_pdf_fails session_1 empty_store) = []"
  using pdf_failure_sends_nothing [of world_pdf_fails session_1 cfg_live empty_store]
  by (simp add: world_pdf_fails_def empty_store_def)

text \<open>
  The whole delivery of a paid session in a world where the renderer throws: the
  booking is stored as paid, the exception is logged, the outbox stays empty.
\<close>

lemma pdf_failure_delivery:
  "fst (POST_webhook cfg_live world_pdf_fails (signed ''evt_1'') empty_store)
     = Json 200 [(''received'', JBool True)]
   \<and> map bk_status (bookings (snd (POST_webhook cfg_live world_pdf_fails (signed ''evt_1'') empty_store)))
       = [paid]
   \<and> outbox (snd (POST_webhook cfg_live world_pdf_fails (signed ''evt_1'') empty_store)) = []
   \<and> map er_type (events (snd (POST_webhook cfg_live world_pdf_fails (signed ''evt_1'') empty_store)))
       = [''stripe_event_seen'', ''stripe_checkout_completed'', ''invoice_send_exception'']"
  by code_simp

subsection \<open>A session that is not paid\<close>

lemma trySend_sends:
  assumes "str_truthy (RESEND_API_KEY cfg)" and "recipient session \<noteq> []"
    and "events_matching ''invoice_sent'' ''session_id'' (ses_id session) s = []"
    and "w_sel_events w ''invoice_sent'' ''session_id'' (ses_id session) = NoFault"
    and "w_buildInvoicePdf w (invoice_of w session (recipient session)) = Some pdf"
    and "w_resend_send w (booking_email cfg w session (recipient session) pdf) = SendOk"
  shows "outbox (trySendBookingEmail cfg w session s)
           = outbox s @ [booking_email cfg w session (recipient session) pdf]"
  using assms by (simp add: trySendBookingEmail_def maybeSingle_def Let_def)

text \<open>
  Claim C9, as the code has it. For a \<open>checkout.session.completed\<close> or
  \<open>checkout.session.async_payment_succeeded\<close> event whose session is not paid, the
  booking is written with status \<open>pending\<close> and, the upsert having succeeded, the
  confirmation message is sent all the same (when the mail key and a recipient are
  there, no marker exists yet, and rendering and sending work): the switch calls
  \<open>trySendBookingEmail\<close> without looking at the status.
\<close>

theorem unpaid_session_is_notified:
  assumes "evt_data e = CheckoutSessionCompleted session
           \<or> evt_data e = CheckoutSessionAsyncPaymentSucceeded session"
    and "ses_payment_status session \<noteq> ''paid''"
    and "fst (upsertBookingFromSession w session s) = Inr b"
    and "str_truthy (RESEND_API_KEY cfg)" and "recipient session \<noteq> []"
    and "events_matching ''invoice_sent'' ''session_id'' (ses_id session) s = []"
    and "w_sel_events w ''invoice_sent'' ''session_id'' (ses_id session) = NoFault"
    and "w_buildInvoicePdf w (invoice_of w session (recipient session)) = Some pdf"
    and "w_resend_send w (booking_email cfg w session (recipient session) pdf) = SendOk"
  shows "sv_bookingStatus (session_values w session) = pending
       \<and> outbox (snd (dispatch cfg w e s))
           = outbox s @ [booking_email cfg w session (recipient session) pdf]"
proof -
  have st: "sv_bookingStatus (session_values w session) = pending"
    using assms(2) by (simp add: session_values_def Let_def)
  have "outbox (trySendBookingEmail cfg w session
                  (logEvent w t p (snd (upsertBookingFromSession w session s))))
          = outbox s @ [booking_email cfg w session (recipient session) pdf]"
    if "t \<noteq> ''invoice_sent''" for t p
    using assms(6) that
    by (subst trySend_sends [OF assms(4,5) _ assms(7,8,9)]) simp_all
  then have "outbox (snd (dispatch cfg w e s))
           = outbox s @ [booking_email cfg w session (recipient session) pdf]"
    using assms(1,3) by (auto simp: dispatch_def split_beta)
  with st show ?thesis by simp
qed

theorem unpaid_session_is_notified_witness:
  "ses_payment_status session_2 \<noteq> ''paid''
   \<and> map em_session (outbox (snd (dispatch cfg_live world_ok
         \<lparr>evt_id = ''evt_3'', evt_data = CheckoutSessionCompleted session_2\<rparr> empty_store)))
       = [''cs_2'']"
proof -
  have u: "fst (upsertBookingFromSession world_ok session_2 empty_store) = Inr 0"
    by code_simp
  have r: "recipient session_2 \<noteq> []"
    by code_simp
  have c: "str_truthy (RESEND_API_KEY cfg_live)" "ses_payment_status session_2 \<noteq> ''paid''"
    by (simp_all add: cfg_live_def session_2_def session_1_def)
  have w: "w_sel_events world_ok ''invoice_sent'' ''session_id'' (ses_id session_2) = NoFault"
    "w_buildInvoicePdf world_ok (invoice_of world_ok session_2 (recipient session_2)) = Some ''JVBERi0x''"
    "w_resend_send world_ok (booking_email cfg_live world_ok session_2 (recipient session_2) ''JVBERi0x'')
       = SendOk"
    by (simp_all add: world_ok_def)
  have m: "events_matching ''invoice_sent'' ''session_id'' (ses_id session_2) empty_store = []"
    by (simp add: events_matching_def empty_store_def)
  from unpaid_session_is_notified
    [of "\<lparr>evt_id = ''evt_3'', evt_data = CheckoutSessionCompleted session_2\<rparr>" session_2
      world_ok empty_store 0 cfg_live "''JVBERi0x''", OF _ c(2) u c(1) r m w]
  show ?thesis
    using c(2) by (simp add: empty_store_def session_2_def)
qed

text \<open>The whole delivery of such an event: a pending booking and one message.\<close>

lemma unpaid_session_delivery:
  "fst (POST_webhook cfg_live world_ok (signed ''evt_3'') empty_store) = Json 200 [(''received'', JBool True)]
   \<and> map bk_status (bookings (snd (POST_webhook cfg_live world_ok (signed ''evt_3'') empty_store))) = [pending]
   \<and> map em_session (outbox (snd (POST_webhook cfg_live world_ok (signed ''evt_3'') empty_store))) = [''cs_2'']"
  by code_simp

subsection \<open>The checkout handler: the price comes from the catalog\<close>

lemma resolve_tour_price [simp]: "resolve_tour cat (d\<lparr>p_price := x\<rparr>) = resolve_tour cat d"
  by (simp add: resolve_tour_def split: option.splits)

lemma session_request_price [simp]:
  "session_request env origin al (d\<lparr>p_price := x\<rparr>) r = session_request env origin al d r"
  by (simp add: session_request_def)

lemma Schema_price:
  assumes "rb_tour b = Some t"
    and "Schema env b = Some d"
    and "Schema env (b\<lparr>rb_tour := Some (t\<lparr>rt_price := p\<rparr>)\<rparr>) = Some d'"
  shows "d' = d\<lparr>p_price := p_price d'\<rparr>"
  using assms
  by (auto simp: Schema_def split: option.splits if_splits)

lemma checkout_steps_price [simp]:
  "checkout_steps cat env al (d\<lparr>p_price := x\<rparr>) = checkout_steps cat env al d"
  by (simp add: checkout_steps_def Let_def cong: option.case_cong sum.case_cong if_cong)

lemma POST_checkout_call:
  assumes "POST_checkout cat env rq = (resp, Some (P, k))"
  shows "\<exists>d r origin. Schema env (cq_body rq) = Some d \<and> resolve_tour cat d = Some r
           \<and> c_site_origin env = Some origin
           \<and> session_request env origin (cq_accept_language rq) d r = (P, k)"
  using assms
  by (auto simp: POST_checkout_def checkout_steps_def Let_def
      split: option.splits if_splits sum.splits)

text \<open>Running the handler on the sample booking of three places at 100,000 COP.\<close>

lemma floor_numeral_div_rat [simp]:
  "\<lfloor>(numeral a :: rat) / numeral b\<rfloor> = numeral a div numeral b"
  using floor_divide_of_int_eq [of "numeral a" "numeral b", where ?'a = rat] by simp

lemma schema_100k_none: "Schema (env_at n u) (body_100k None) = Some (payload_100k None)"
  by (simp add: Schema_def body_100k_def env_at_def env_live_def payload_100k_def z_optional_def
        z_string_min_def z_int_range_def is_integer_def z_currency_def z_string_max_def is_digit_def)

lemma schema_100k_one:
  "Schema (env_at n u) (body_100k (Some (JNum (Fin 1)))) = Some (payload_100k (Some 1))"
  by (simp add: Schema_def body_100k_def env_at_def env_live_def payload_100k_def z_optional_def
        z_string_min_def z_int_range_def is_integer_def z_currency_def z_string_max_def is_digit_def)

lemma resolve_100k: "resolve_tour catalog_100k (payload_100k x) = Some (hd catalog_100k)"
  by (simp add: resolve_tour_def getTourBySlug_def catalog_100k_def payload_100k_def
        toLowerCase_def lower_char_def)

lemma steps_100k:
  "checkout_steps catalog_100k (env_at n u) al (payload_100k x)
     = (Json 200 [(''url'', JStr ''https://checkout.stripe.com/c/pay/cs_1''),
                  (''requestId'', JStr u), (''sessionId'', JStr ''cs_1'')],
        Some (session_request (env_at n u) ''https://kce.travel'' al (payload_100k x)
                (hd catalog_100k)))"
  by (simp add: checkout_steps_def resolve_100k Let_def)
     (simp add: env_at_def env_live_def payload_100k_def co_parseYMD_def isTodayOrFuture_def
        is_digit_def)

lemma env_live_at: "env_live = env_at 1893500000 ''req-1''"
  by (simp add: env_at_def env_live_def)

text \<open>
  The conversion at the default rate, in doubles: \<open>100000 / 4000\<close> is \<open>25\<close> and
  \<open>25 * 100\<close> is \<open>2500\<close>, both exact; \<open>1 / 4000 * 100\<close> rounds to \<open>0\<close> and is lifted
  to \<open>1\<close>.
\<close>

lemma convert_100k_at_4000: "js_scale 100 (js_div (Fin 100000) (Fin 4000)) = Fin 2500"
  by code_simp

lemma convert_1_at_4000:
  "js_max (Fin 1) (js_round (js_scale 100 (js_div (Fin 1) (Fin 4000)))) = Fin 1"
  by code_simp

lemma unit_100k: "unitAmountCents (env_at n u) 100000 = Fin 2500"
proof -
  have "unitAmountCents (env_at n u) 100000
          = js_max (Fin 1) (js_round (js_scale 100 (js_div (Fin 100000) (Fin 4000))))"
    by (simp add: unitAmountCents_def copToUsdCents_def catalogCurrency_def env_number_def
          env_at_def env_live_def del: js_div.simps js_scale.simps)
  then show ?thesis
    by (simp add: convert_100k_at_4000 del: js_div.simps js_scale.simps)
qed

lemma POST_100k_none:
  "POST_checkout catalog_100k (env_at n u) (request_100k None)
     = (Json 200 [(''url'', JStr ''https://checkout.stripe.com/c/pay/cs_1''),
                  (''requestId'', JStr u), (''sessionId'', JStr ''cs_1'')],
        Some (session_request (env_at n u) ''https://kce.travel'' (Some ''es-CO,es;q=0.9'')
                (payload_100k None) (hd catalog_100k)))"
  by (simp add: POST_checkout_def request_100k_def schema_100k_none steps_100k)

lemma POST_100k_one:
  "POST_checkout catalog_100k (env_at n u) (request_100k (Some (JNum (Fin 1))))
     = (Json 200 [(''url'', JStr ''https://checkout.stripe.com/c/pay/cs_1''),
                  (''requestId'', JStr u), (''sessionId'', JStr ''cs_1'')],
        Some (session_request (env_at n u) ''https://kce.travel'' (Some ''es-CO,es;q=0.9'')
                (payload_100k (Some 1)) (hd catalog_100k)))"
  by (simp add: POST_checkout_def request_100k_def schema_100k_one steps_100k)

lemma items_100k:
  "cp_line_items (fst (session_request (env_at n u) origin al (payload_100k x) (hd catalog_100k)))
     = [\<lparr>li_quantity = 3, li_currency = ''usd'', li_unit_amount = Fin 2500, li_name = ''City Walk'',
         li_description = js_trim (fecha_sep @ ''2030-05-01'')\<rparr>]"
  by (simp add: session_request_def Let_def unit_100k [unfolded catalog_100k_def]
        catalog_100k_def payload_100k_def)

text \<open>
  Claim C1. Two requests that differ only in the client's \<open>tour.price\<close>, both valid:
  the handler gives the same response and makes the same call to the provider (same
  parameters, same line item, same key). And whenever the handler calls the provider,
  the call has one line item, whose unit amount is computed from the price of the
  catalog entry that the payload resolves to.
\<close>

theorem price_authority:
  assumes "rb_tour b = Some t"
    and "Schema env b = Some d"
    and "Schema env (b\<lparr>rb_tour := Some (t\<lparr>rt_price := p\<rparr>)\<rparr>) = Some d'"
  shows "POST_checkout cat env \<lparr>cq_body = b\<lparr>rb_tour := Some (t\<lparr>rt_price := p\<rparr>)\<rparr>,
                                 cq_accept_language = al\<rparr>
           = POST_checkout cat env \<lparr>cq_body = b, cq_accept_language = al\<rparr>
       \<and> (\<forall>resp P k. POST_checkout cat env \<lparr>cq_body = b, cq_accept_language = al\<rparr>
                          = (resp, Some (P, k)) \<longrightarrow>
             (\<exists>r. resolve_tour cat d = Some r
                  \<and> map li_unit_amount (cp_line_items P) = [unitAmountCents env (t_price r)]))"
proof -
  have "d' = d\<lparr>p_price := p_price d'\<rparr>"
    by (rule Schema_price [OF assms])
  then have "checkout_steps cat env al d' = checkout_steps cat env al d"
    by (metis checkout_steps_price)
  then have eq: "POST_checkout cat env \<lparr>cq_body = b\<lparr>rb_tour := Some (t\<lparr>rt_price := p\<rparr>)\<rparr>,
                                 cq_accept_language = al\<rparr>
           = POST_checkout cat env \<lparr>cq_body = b, cq_accept_language = al\<rparr>"
    using assms(2,3) by (simp add: POST_checkout_def)
  have amt: "\<exists>r. resolve_tour cat d = Some r
                  \<and> map li_unit_amount (cp_line_items P) = [unitAmountCents env (t_price r)]"
    if "POST_checkout cat env \<lparr>cq_body = b, cq_accept_language = al\<rparr> = (resp, Some (P, k))"
    for resp P k
    using POST_checkout_call [OF that] assms(2)
    by (auto simp: session_request_def Let_def)
  from eq amt show ?thesis by blast
qed

theorem price_authority_witness:
  "POST_checkout catalog_100k env_live (request_100k (Some (JNum (Fin 1))))
     = POST_checkout catalog_100k env_live (request_100k None)
   \<and> map li_unit_amount (cp_line_items (fst (the (snd
         (POST_checkout catalog_100k env_live (request_100k None)))))) = [Fin 2500]"
proof -
  let ?t = "\<lparr>rt_slug = Some (JStr ''city-walk''), rt_title = None, rt_short = None,
             rt_price = None\<rparr>"
  have t: "rb_tour (body_100k None) = Some ?t"
    by (simp add: body_100k_def)
  have b: "(body_100k None)\<lparr>rb_tour := Some (?t\<lparr>rt_price := Some (JNum (Fin 1))\<rparr>)\<rparr>
             = body_100k (Some (JNum (Fin 1)))"
    by (simp add: body_100k_def)
  have s0: "Schema env_live (body_100k None) = Some (payload_100k None)"
    unfolding env_live_at by (rule schema_100k_none)
  have s1: "Schema env_live ((body_100k None)\<lparr>rb_tour := Some (?t\<lparr>rt_price := Some (JNum (Fin 1))\<rparr>)\<rparr>)
              = Some (payload_100k (Some 1))"
    unfolding b env_live_at by (rule schema_100k_one)
  from price_authority [OF t s0 s1, of catalog_100k "Some ''es-CO,es;q=0.9''"]
  have "POST_checkout catalog_100k env_live
          \<lparr>cq_body = (body_100k None)\<lparr>rb_tour := Some (?t\<lparr>rt_price := Some (JNum (Fin 1))\<rparr>)\<rparr>,
             cq_accept_language = Some ''es-CO,es;q=0.9''\<rparr>
        = POST_checkout catalog_100k env_live
            \<lparr>cq_body = body_100k None, cq_accept_language = Some ''es-CO,es;q=0.9''\<rparr>"
    by (rule conjunct1)
  then have "POST_checkout catalog_100k env_live (request_100k (Some (JNum (Fin 1))))
               = POST_checkout catalog_100k env_live (request_100k None)"
    unfolding b request_100k_def [symmetric] .
  then show ?thesis
    by (simp add: env_live_at POST_100k_none items_100k)
qed

subsection \<open>The idempotency key\<close>

























text \<open>
  The call that the handler makes does not depend on what the provider answers, and a
  provider that knows the key creates nothing.
\<close>

lemma Schema_c_create [simp]: "Schema (env\<lparr>c_create := f\<rparr>) b = Schema env b"
  by (simp add: Schema_def cong: option.case_cong if_cong)

lemma session_request_c_create [simp]:
  "session_request (env\<lparr>c_create := f\<rparr>) origin al d r = session_request env origin al d r"
  by (simp add: session_request_def unitAmountCents_def copToUsdCents_def catalogCurrency_def
        env_number_def idemKey_def)



















subsection \<open>Currency conversion\<close>

text \<open>
  What \<open>to_double\<close> is: \<open>bexp\<close> is the binary exponent, the result is within half a
  unit in the last place of the argument, and for a number that is not subnormal the
  relative error is at most \<open>2\<close> to the power \<open>-53\<close>.
\<close>

lemma pow2_powi: "pow2 e = 2 powi e"
  by (simp add: pow2_def power_int_def power_one_over inverse_eq_divide)

lemma pow2_pos [simp]: "0 < pow2 e"
  by (simp add: pow2_powi)

lemma pow2_neq0 [simp]: "pow2 e \<noteq> 0"
  by (simp add: pow2_powi)

lemma pow2_diff: "pow2 (a - b) = pow2 a / pow2 b"
  by (simp add: pow2_powi power_int_diff)

lemma pow2_nat: "0 \<le> e \<Longrightarrow> pow2 e = 2 ^ nat e"
  by (simp add: pow2_def)

lemma bitlen_pow2:
  assumes "0 < p"
  shows "pow2 (bitlen p - 1) \<le> of_int p" and "of_int p < pow2 (bitlen p)"
proof -
  have b: "2 ^ nat (bitlen p - 1) \<le> p" "p < 2 ^ nat (bitlen p)"
    using bitlen_bounds [OF assms] by simp_all
  have l: "1 \<le> bitlen p"
  proof (rule ccontr)
    assume "\<not> 1 \<le> bitlen p"
    then have "nat (bitlen p) = 0" by simp
    with b(2) assms show False by simp
  qed
  have "(of_int (2 ^ nat (bitlen p - 1)) :: rat) \<le> of_int p"
    using b(1) by (simp only: of_int_le_iff)
  then show "pow2 (bitlen p - 1) \<le> of_int p"
    using l by (simp add: pow2_nat)
  have "(of_int p :: rat) < of_int (2 ^ nat (bitlen p))"
    using b(2) by (simp only: of_int_less_iff)
  then show "of_int p < pow2 (bitlen p)"
    using l by (simp add: pow2_nat)
qed

lemma bexp_correct:
  assumes "0 < x"
  shows "pow2 (bexp x) \<le> x \<and> x < pow2 (bexp x + 1)"
proof -
  obtain p q where pq: "quotient_of x = (p, q)" by fastforce
  have q0: "0 < q" by (rule quotient_of_denom_pos [OF pq])
  have x: "x = of_int p / of_int q" by (rule quotient_of_div [OF pq])
  have p0: "0 < p" using assms q0 x by (simp add: zero_less_divide_iff)
  note P = bitlen_pow2 [OF p0] and Q = bitlen_pow2 [OF q0]
  let ?e = "bitlen p - bitlen q"
  have "x < pow2 (bitlen p) / pow2 (bitlen q - 1)"
    unfolding x using P(2) Q(1) p0 q0 by (intro frac_less) simp_all
  also have "\<dots> = pow2 (?e + 1)"
    using pow2_diff [of "bitlen p" "bitlen q - 1"] by (simp add: algebra_simps)
  finally have up: "x < pow2 (?e + 1)" .
  have "pow2 (bitlen p - 1) / pow2 (bitlen q) < x"
    unfolding x using P(1) Q(2) p0 q0 by (intro frac_less2) simp_all
  moreover have "pow2 (bitlen p - 1) / pow2 (bitlen q) = pow2 (?e - 1)"
    using pow2_diff [of "bitlen p - 1" "bitlen q"] by (simp add: algebra_simps)
  ultimately have lo: "pow2 (?e - 1) < x" by simp
  show ?thesis
  proof (cases "pow2 ?e \<le> x")
    case True
    then have "bexp x = ?e" by (simp add: bexp_def pq)
    with True up show ?thesis by simp
  next
    case False
    then have "bexp x = ?e - 1" by (simp add: bexp_def pq)
    with False lo show ?thesis by simp
  qed
qed

lemma round_half_even_near: "\<bar>of_int (round_half_even y) - y\<bar> \<le> 1 / 2"
proof -
  have "of_int \<lfloor>y\<rfloor> \<le> y" "y < of_int \<lfloor>y\<rfloor> + 1" by linarith+
  then show ?thesis
    by (auto simp: round_half_even_def Let_def)
qed

lemma to_double_near:
  assumes "to_double x = Fin y"
  shows "\<bar>y - x\<bar> \<le> pow2 (max (bexp \<bar>x\<bar> - 52) (- 1074)) / 2"
proof (cases "x = 0")
  case True
  with assms show ?thesis by (simp add: to_double_def less_imp_le)
next
  case False
  let ?q = "max (bexp \<bar>x\<bar> - 52) (- 1074)"
  let ?m = "round_half_even (\<bar>x\<bar> / pow2 ?q)"
  have y: "y = (if 0 < x then of_int ?m * pow2 ?q else - (of_int ?m * pow2 ?q))"
    using assms False by (simp add: to_double_def Let_def split: if_splits)
  have "\<bar>of_int ?m * pow2 ?q - \<bar>x\<bar>\<bar> = \<bar>of_int ?m - \<bar>x\<bar> / pow2 ?q\<bar> * pow2 ?q"
  proof -
    have "of_int ?m * pow2 ?q - \<bar>x\<bar> = (of_int ?m - \<bar>x\<bar> / pow2 ?q) * pow2 ?q"
      by (simp add: algebra_simps)
    then show ?thesis
      by (simp only: abs_mult abs_of_pos [OF pow2_pos])
  qed
  also have "\<dots> \<le> 1 / 2 * pow2 ?q"
    by (intro mult_right_mono round_half_even_near) (simp add: less_imp_le)
  finally have "\<bar>of_int ?m * pow2 ?q - \<bar>x\<bar>\<bar> \<le> pow2 ?q / 2" by simp
  then show ?thesis
    unfolding y using False by (auto simp: abs_if split: if_splits)
qed

lemma to_double_relative:
  assumes "to_double x = Fin y" and "- 1022 \<le> bexp \<bar>x\<bar>" and "x \<noteq> 0"
  shows "\<bar>y - x\<bar> \<le> \<bar>x\<bar> / 2 ^ 53"
proof -
  have "max (bexp \<bar>x\<bar> - 52) (- 1074) = bexp \<bar>x\<bar> - 52"
    using assms(2) by simp
  with to_double_near [OF assms(1)]
  have "\<bar>y - x\<bar> \<le> pow2 (bexp \<bar>x\<bar> - 52) / 2" by simp
  also have "\<dots> = pow2 (bexp \<bar>x\<bar>) / 2 ^ 53"
    by (simp add: pow2_diff pow2_nat)
  also have "\<dots> \<le> \<bar>x\<bar> / 2 ^ 53"
    using bexp_correct [of "\<bar>x\<bar>"] assms(3) by (simp add: divide_right_mono)
  finally show ?thesis .
qed

lemma pow2_mono: "a \<le> b \<Longrightarrow> pow2 a \<le> pow2 b"
  by (simp add: pow2_powi power_int_increasing)

lemma pow2_less_imp: "pow2 a < pow2 b \<Longrightarrow> a < b"
  using pow2_mono [of b a] by (cases "a < b") simp_all

lemma bexp_normal:
  assumes "pow2 (- 1022) \<le> x"
  shows "- 1022 \<le> bexp x"
proof -
  have "0 < x" using assms pow2_pos [of "- 1022"] by linarith
  then have "x < pow2 (bexp x + 1)" using bexp_correct by blast
  with assms have "pow2 (- 1022) < pow2 (bexp x + 1)" by linarith
  then have "- 1022 < bexp x + 1" by (rule pow2_less_imp)
  then show ?thesis by simp
qed

text \<open>
  The error of the conversion: a quotient rounded to a double, and its product with
  \<open>100\<close> rounded again.
\<close>

lemma double_product_error:
  assumes "pow2 (- 1022) \<le> x" and "to_double x = Fin u" and "to_double (100 * u) = Fin v"
  shows "\<bar>v - 100 * x\<bar> \<le> 100 * x / 2 ^ 51"
proof -
  have x0: "0 < x" using assms(1) pow2_pos [of "- 1022"] by linarith
  have e1: "\<bar>u - x\<bar> \<le> x / 2 ^ 53"
    using to_double_relative [OF assms(2)] bexp_normal [of x] assms(1) x0 by simp
  have "x / 2 ^ 53 \<le> x / 2" using x0 by (simp add: field_simps)
  with e1 have u1: "x / 2 \<le> u" by linarith
  then have u0: "0 < u" using x0 by linarith
  have "pow2 (- 1022) \<le> 100 * u" using u1 assms(1) x0 by linarith
  then have e2: "\<bar>v - 100 * u\<bar> \<le> 100 * u / 2 ^ 53"
    using to_double_relative [OF assms(3)] bexp_normal [of "100 * u"] u0 by simp
  have "u \<le> x + x / 2 ^ 53" using e1 by linarith
  then have "100 * u / 2 ^ 53 \<le> 100 * (x + x / 2 ^ 53) / 2 ^ 53"
    by (simp add: divide_right_mono)
  with e2 have e3: "\<bar>v - 100 * u\<bar> \<le> 100 * (x + x / 2 ^ 53) / 2 ^ 53" by linarith
  have "\<bar>(v - 100 * u) + 100 * (u - x)\<bar> \<le> \<bar>v - 100 * u\<bar> + \<bar>100 * (u - x)\<bar>"
    by (rule abs_triangle_ineq)
  moreover have "(v - 100 * u) + 100 * (u - x) = v - 100 * x"
    by (simp add: algebra_simps)
  moreover have "\<bar>100 * (u - x)\<bar> = 100 * \<bar>u - x\<bar>"
    by (simp only: abs_mult abs_numeral)
  ultimately have "\<bar>v - 100 * x\<bar> \<le> \<bar>v - 100 * u\<bar> + 100 * \<bar>u - x\<bar>"
    by simp
  also have "\<dots> \<le> 100 * (x + x / 2 ^ 53) / 2 ^ 53 + 100 * (x / 2 ^ 53)"
    using e3 e1 by (intro add_mono mult_left_mono) simp_all
  also have "\<dots> \<le> 100 * x / 2 ^ 51"
    using x0 by (simp add: field_simps)
  finally show ?thesis .
qed

lemma js_scale_div_error:
  assumes "js_scale 100 (js_div (Fin a) (Fin b)) = Fin v" and "pow2 (- 1022) \<le> a / b"
  shows "\<bar>v - a / b * 100\<bar> \<le> a / b * 100 / 2 ^ 51"
proof -
  have b: "b \<noteq> 0"
    using assms(2) pow2_pos [of "- 1022"] by (cases "b = 0") simp_all
  obtain u where u: "to_double (a / b) = Fin u"
    using assms(1) b by (cases "to_double (a / b)") simp_all
  with assms(1) b have "to_double (100 * u) = Fin v" by simp
  from double_product_error [OF assms(2) u this] show ?thesis
    by (simp add: mult.commute)
qed

lemma convert_580_at_4000:
  "js_scale 100 (js_div (Fin 580) (Fin 4000)) = Fin (8162774324609023 / 562949953421312)"
  by code_simp

text \<open>
  Claim C7, amended. With a catalog currency other than USD, the unit amount is
  computed in doubles: the quotient \<open>price / rate\<close> is rounded to a double, and so is
  its product with \<open>100\<close>. When that product is a finite number \<open>v\<close>, the unit amount is
  \<open>max 1 n\<close> where \<open>n\<close> is the integer nearest to \<open>v\<close>, a tie going up; so it is never
  \<open>0\<close>. When the quotient is not below the smallest normal double, \<open>v\<close> is the exact
  value of \<open>price / rate * 100\<close> up to a relative error of \<open>2\<close> to the power \<open>-51\<close>. At a
  rate of 4000 the unit amount is 2,500 for a price of 100,000, and 1 (the floor) for
  a price of 1.
\<close>

theorem cop_conversion_rounding:
  assumes "catalogCurrency env \<noteq> ''USD''"
    and "js_scale 100 (js_div (Fin (of_int price))
           (env_number env (c_STRIPE_COP_USD_RATE env) 4000)) = Fin v"
  shows "(\<exists>n. unitAmountCents env price = Fin (of_int (max 1 n))
             \<and> v - 1 / 2 < of_int n \<and> of_int n \<le> v + 1 / 2)
       \<and> (\<forall>rate. env_number env (c_STRIPE_COP_USD_RATE env) 4000 = Fin rate
                  \<and> pow2 (- 1022) \<le> of_int price / rate \<longrightarrow>
              \<bar>v - of_int price / rate * 100\<bar> \<le> of_int price / rate * 100 / 2 ^ 51)
       \<and> (env_number env (c_STRIPE_COP_USD_RATE env) 4000 = Fin 4000 \<longrightarrow>
            unitAmountCents env 100000 = Fin 2500 \<and> unitAmountCents env 1 = Fin 1)"
proof -
  have u: "unitAmountCents env p
             = js_max (Fin 1) (js_round (js_scale 100 (js_div (Fin (of_int p))
                 (env_number env (c_STRIPE_COP_USD_RATE env) 4000))))" for p
    using assms(1) by (simp add: unitAmountCents_def copToUsdCents_def Let_def)
  have "unitAmountCents env price = Fin (of_int (max 1 \<lfloor>v + 1 / 2\<rfloor>))"
    unfolding u assms(2) by (simp add: max_def)
  moreover have "v - 1 / 2 < of_int \<lfloor>v + 1 / 2\<rfloor>" by linarith
  moreover have "of_int \<lfloor>v + 1 / 2\<rfloor> \<le> v + 1 / 2" by (rule of_int_floor_le)
  ultimately have 1: "\<exists>n. unitAmountCents env price = Fin (of_int (max 1 n))
             \<and> v - 1 / 2 < of_int n \<and> of_int n \<le> v + 1 / 2" by blast
  have 2: "\<bar>v - of_int price / rate * 100\<bar> \<le> of_int price / rate * 100 / 2 ^ 51"
    if "env_number env (c_STRIPE_COP_USD_RATE env) 4000 = Fin rate"
      and "pow2 (- 1022) \<le> of_int price / rate" for rate
    using assms(2) unfolding that(1) by (rule js_scale_div_error) (rule that(2))
  have 3: "unitAmountCents env 100000 = Fin 2500"
    if "env_number env (c_STRIPE_COP_USD_RATE env) 4000 = Fin 4000"
    unfolding u that using convert_100k_at_4000 by simp
  have 4: "unitAmountCents env 1 = Fin 1"
    if "env_number env (c_STRIPE_COP_USD_RATE env) 4000 = Fin 4000"
    unfolding u that using convert_1_at_4000 by simp
  from 1 2 3 4 show ?thesis by blast
qed

theorem cop_conversion_rounding_witness:
  "catalogCurrency env_live \<noteq> ''USD''
   \<and> js_scale 100 (js_div (Fin (of_int 580))
         (env_number env_live (c_STRIPE_COP_USD_RATE env_live) 4000))
       = Fin (8162774324609023 / 562949953421312)
   \<and> unitAmountCents env_live 580 = Fin 14
   \<and> \<bar>8162774324609023 / 562949953421312 - 580 / 4000 * 100\<bar>
       \<le> (580 / 4000 * 100 / 2 ^ 51 :: rat)
   \<and> unitAmountCents env_live 100000 = Fin 2500
   \<and> unitAmountCents env_live 1 = Fin 1"
proof -
  let ?v = "8162774324609023 / 562949953421312 :: rat"
  have c: "catalogCurrency env_live \<noteq> ''USD''"
    by (simp add: env_live_def catalogCurrency_def)
  have r: "env_number env_live (c_STRIPE_COP_USD_RATE env_live) 4000 = Fin 4000"
    by (simp add: env_live_def env_number_def)
  have v: "js_scale 100 (js_div (Fin (of_int 580))
             (env_number env_live (c_STRIPE_COP_USD_RATE env_live) 4000)) = Fin ?v"
    unfolding r using convert_580_at_4000 by simp
  have "pow2 (- 1022) \<le> pow2 0" by (rule pow2_mono) simp
  then have n: "pow2 (- 1022) \<le> of_int 580 / 4000" by (simp add: pow2_def)
  note t = cop_conversion_rounding [OF c v]
  from t obtain k where k: "unitAmountCents env_live 580 = Fin (of_int (max 1 k))"
    "?v - 1 / 2 < of_int k" "of_int k \<le> ?v + 1 / 2"
    by blast
  have "(13 :: rat) < of_int k" using k(2) by simp
  then have k1: "13 < k" by (simp only: of_int_less_iff [of 13 k, symmetric] of_int_numeral)
  have "of_int k < (15 :: rat)" using k(3) by simp
  then have k2: "k < 15" by (simp only: of_int_less_iff [of k 15, symmetric] of_int_numeral)
  from k1 k2 have "k = 14" by simp
  with k(1) have a: "unitAmountCents env_live 580 = Fin 14" by simp
  from t r n have "\<bar>?v - of_int 580 / 4000 * 100\<bar> \<le> of_int 580 / 4000 * 100 / 2 ^ 51"
    by blast
  then have e: "\<bar>?v - 580 / 4000 * 100\<bar> \<le> (580 / 4000 * 100 / 2 ^ 51 :: rat)"
    by (simp only: of_int_numeral)
  from t r have b: "unitAmountCents env_live 100000 = Fin 2500 \<and> unitAmountCents env_live 1 = Fin 1"
    by blast
  from c v a e b show ?thesis by blast
qed

text \<open>
  The conversion at two other rates: \<open>4998.750312421895\<close> (\<open>rate_4998\<close> is the double
  nearest to it) and \<open>0\<close>.
\<close>

lemma rate_4998_double: "to_double (4998750312421895 / 10 ^ 12) = Fin rate_4998"
  by code_simp

lemma convert_at_4998:
  "unitAmountCents (env_rate ''4998.750312421895'' (Fin rate_4998)) 100000 = Fin 2001"
  by code_simp

lemma exact_at_4998: "\<bar>2001 - 100000 / rate_4998 * 100\<bar> > (1 / 2 :: rat)"
  by (simp add: rate_4998_def)

lemma convert_at_0: "unitAmountCents (env_rate ''0'' (Fin 0)) 100000 = PInf"
  by code_simp

text \<open>
  Claim C7 as stated has 750,000 for a booking of three places at 100,000 with rate
  4000. The handler sends a line item of quantity 3 at a unit amount of 2,500; neither
  the unit amount nor three times it is 750,000. The unit amount is not always the
  integer nearest to the exact value of \<open>price / rate * 100\<close> either: at the rate
  \<open>4998.750312421895\<close> a price of 100,000 gives 2,001, and the exact value is below
  2000.5. And it is not always an integer: a rate of \<open>0\<close> gives \<open>Infinity\<close>.
\<close>

theorem scenario_amount_counterexample:
  "map li_quantity (cp_line_items (fst (the (snd
       (POST_checkout catalog_100k env_live (request_100k None)))))) = [3]
   \<and> map li_unit_amount (cp_line_items (fst (the (snd
       (POST_checkout catalog_100k env_live (request_100k None)))))) = [Fin 2500]
   \<and> unitAmountCents env_live 100000 \<noteq> Fin 750000
   \<and> (3 * 2500 :: int) \<noteq> 750000
   \<and> unitAmountCents (env_rate ''4998.750312421895'' (Fin rate_4998)) 100000 = Fin 2001
   \<and> \<bar>2001 - 100000 / rate_4998 * 100\<bar> > (1 / 2 :: rat)
   \<and> unitAmountCents (env_rate ''0'' (Fin 0)) 100000 = PInf"
  using exact_at_4998
  by (simp add: env_live_at POST_100k_none items_100k unit_100k convert_at_4998 convert_at_0)

end
